theory Spec2Isabelle
  imports Main "HOL-Library.Word"
begin

section \<open>Python values used by the weight loaders\<close>

text \<open>
  The exceptions that the modelled code can raise. \<open>torch.load\<close> on a missing file raises
  \<open>FileNotFoundError\<close>; \<open>load_state_dict\<close> raises \<open>RuntimeError\<close>; subscripting out of
  range raises \<open>IndexError\<close>; \<open>list.index\<close> of an absent element raises \<open>ValueError\<close>;
  reading an attribute that was never assigned raises \<open>AttributeError\<close>; the float division
  \<open>2. / n\<close> by \<open>n = 0\<close> raises \<open>ZeroDivisionError\<close>.
\<close>

datatype error =
  AttributeError | IndexError | ValueError | FileNotFoundError | RuntimeError | ZeroDivisionError

text \<open>
  A Python \<open>dict\<close> with string keys keeps its entries in insertion order and holds each
  key once. It is modelled as an association list; \<open>items()\<close> is the list itself.
\<close>

type_synonym 'v dict = "(string \<times> 'v) list"

text \<open>\<open>d[k] = v\<close>: an existing key keeps its place and takes the new value, a new key is
  appended.\<close>

fun setitem :: "'v dict \<Rightarrow> string \<Rightarrow> 'v \<Rightarrow> 'v dict" where
  "setitem [] k v = [(k, v)]"
| "setitem ((k', v') # d) k v =
     (if k' = k then (k', v) # d else (k', v') # setitem d k v)"

text \<open>\<open>k.startswith(b)\<close> and the slice \<open>k[n:]\<close> (which is \<open>drop n k\<close>).\<close>

definition startswith :: "string \<Rightarrow> string \<Rightarrow> bool" where
  "startswith k b \<longleftrightarrow> take (length b) k = b"

text \<open>The comprehension
  \<^verbatim>\<open>{k[n:]: v for k, v in model_dict.items() if k.startswith(block_name)}\<close>
  inserts the renamed entries one after the other into an empty dictionary.\<close>

definition modified_dict :: "nat \<Rightarrow> string \<Rightarrow> 'v dict \<Rightarrow> 'v dict" where
  "modified_dict n block_name model_dict =
     foldl (\<lambda>m (k, v). setitem m (drop n k) v) []
       (filter (\<lambda>(k, v). startswith k block_name) model_dict)"

text \<open>\<open>d.update(m)\<close> stores every entry of \<open>m\<close> in \<open>d\<close>, in the order of \<open>m\<close>.\<close>

definition dict_update :: "'v dict \<Rightarrow> 'v dict \<Rightarrow> 'v dict" where
  "dict_update d m = foldl (\<lambda>d (k, v). setitem d k v) d m"

text \<open>The renaming step that the three loaders share word for word:
  \<^verbatim>\<open>
  if block_name == 'fc':
      modified_dict = {k[3:]: v for k, v in model_dict.items() if k.startswith(block_name)}
      model_dict.update(modified_dict)
  else:
      modified_dict = {k[7:]: v for k, v in model_dict.items() if k.startswith(block_name)}
      model_dict.update(modified_dict)
  \<close>
  The result is the updated \<open>model_dict\<close>.\<close>

definition rename_block :: "string \<Rightarrow> 'v dict \<Rightarrow> 'v dict" where
  "rename_block block_name model_dict =
     (if block_name = ''fc''
      then dict_update model_dict (modified_dict 3 block_name model_dict)
      else dict_update model_dict (modified_dict 7 block_name model_dict))"

section \<open>Subscripts and string formatting\<close>

text \<open>\<open>xs[i]\<close> on a list or a one-dimensional tensor: a negative subscript counts from
  the end, a subscript out of range raises \<open>IndexError\<close>.\<close>

definition getitem :: "'a list \<Rightarrow> int \<Rightarrow> error + 'a" where
  "getitem xs i =
     (if 0 \<le> i \<and> i < int (length xs) then Inr (xs ! nat i)
      else if i < 0 \<and> - int (length xs) \<le> i then Inr (xs ! nat (int (length xs) + i))
      else Inl IndexError)"

text \<open>\<open>t[index]\<close> with a one-dimensional integer tensor \<open>index\<close>: the entries of \<open>t\<close> at
  these positions, in the order of \<open>index\<close>.\<close>

fun gather :: "'a list \<Rightarrow> int list \<Rightarrow> error + 'a list" where
  "gather xs [] = Inr []"
| "gather xs (i # rest) =
     (case getitem xs i of
        Inl e \<Rightarrow> Inl e
      | Inr x \<Rightarrow> (case gather xs rest of Inl e \<Rightarrow> Inl e | Inr ys \<Rightarrow> Inr (x # ys)))"

text \<open>\<open>xs.index(x)\<close>: the first position of \<open>x\<close>, \<open>ValueError\<close> when there is none.\<close>

fun list_index :: "'a list \<Rightarrow> 'a \<Rightarrow> error + nat" where
  "list_index [] x = Inl ValueError"
| "list_index (y # ys) x =
     (if y = x then Inr 0
      else (case list_index ys x of Inl e \<Rightarrow> Inl e | Inr i \<Rightarrow> Inr (Suc i)))"

text \<open>The decimal text that \<open>'{}'.format(n)\<close> produces for an integer \<open>n\<close>.\<close>

definition digit :: "nat \<Rightarrow> char" where
  "digit n = ''0123456789'' ! n"

function str_nat :: "nat \<Rightarrow> string" where
  "str_nat n = (if n < 10 then [digit n] else str_nat (n div 10) @ [digit (n mod 10)])"
  by pat_completeness auto
termination
  by (relation "measure (\<lambda>n. n)") auto

declare str_nat.simps [simp del]

definition str_int :: "int \<Rightarrow> string" where
  "str_int i = (if i < 0 then CHR ''-'' # str_nat (nat (- i)) else str_nat (nat i))"

text \<open>\<open>'{}'.format(self.weight_root)\<close>: the attribute is \<open>None\<close> (the constructor's
  default) or a string.\<close>

definition str_root :: "string option \<Rightarrow> string" where
  "str_root r = (case r of None \<Rightarrow> ''None'' | Some s \<Rightarrow> s)"

text \<open>\<^verbatim>\<open>"{}/{}_cross_entropy_{}.model".format(self.weight_root, self.model_name, n)\<close>\<close>

definition saved_model_name :: "string option \<Rightarrow> string \<Rightarrow> int \<Rightarrow> string" where
  "saved_model_name root name n =
     str_root root @ ''/'' @ name @ ''_cross_entropy_'' @ str_int n @ ''.model''"

section \<open>Modules and tensors in the forward passes\<close>

text \<open>
  In a forward pass a module is what calling it does: a function from the input tensor to the
  output tensor or to the exception raised. Tensors are values of a type variable, here \<open>'t\<close>.
\<close>

type_synonym 't module = "'t \<Rightarrow> error + 't"

text \<open>
  What the file takes from the framework for its forward passes. The module classes, each with
  the arguments that the file passes: \<open>nn.Conv2d(in_channels, out_channels, kernel_size,
  stride, padding)\<close> (always with \<open>bias=False\<close>), \<open>nn.BatchNorm2d(num_features)\<close>,
  \<open>nn.ReLU(inplace=True)\<close>, \<open>nn.AvgPool2d(kernel_size, stride)\<close> and
  \<open>nn.Linear(in_features, out_features)\<close>. The tensor operations: \<open>iadd out residual\<close> is
  \<open>out += residual\<close>, \<open>view_rows x\<close> is \<open>x.view(x.size(0), -1)\<close>, and \<open>truediv x t\<close> is
  \<open>x / t\<close> for a Python float \<open>t\<close>.
\<close>

record ('t, 'f) nn =
  Conv2d :: "nat \<Rightarrow> nat \<Rightarrow> nat \<Rightarrow> nat \<Rightarrow> nat \<Rightarrow> 't module"
  BatchNorm2d :: "nat \<Rightarrow> 't module"
  ReLU :: "'t module"
  AvgPool2d :: "nat \<Rightarrow> nat \<Rightarrow> 't module"
  Linear :: "nat \<Rightarrow> nat \<Rightarrow> 't module"
  iadd :: "'t \<Rightarrow> 't \<Rightarrow> error + 't"
  view_rows :: "'t \<Rightarrow> error + 't"
  truediv :: "'t \<Rightarrow> 'f \<Rightarrow> 't"

text \<open>\<open>nn.Sequential(*layers)\<close> calls its modules in order.\<close>

fun Sequential :: "'t module list \<Rightarrow> 't module" where
  "Sequential [] x = Inr x"
| "Sequential (m # ms) x = (case m x of Inl e \<Rightarrow> Inl e | Inr y \<Rightarrow> Sequential ms y)"

text \<open>\<open>conv3x3(in_planes, out_planes, stride=1)\<close>\<close>

definition conv3x3 :: "('t, 'f) nn \<Rightarrow> nat \<Rightarrow> nat \<Rightarrow> nat \<Rightarrow> 't module" where
  "conv3x3 NN in_planes out_planes stride = Conv2d NN in_planes out_planes 3 stride 1"

section \<open>BasicBlock\<close>

record 't BasicBlock =
  conv1 :: "'t module"
  bn1 :: "'t module"
  relu :: "'t module"
  conv2 :: "'t module"
  bn2 :: "'t module"
  downsample :: "'t module option"
  stride :: nat

text \<open>The class attribute \<open>expansion\<close>.\<close>

definition expansion :: nat where
  "expansion = 1"

text \<open>\<open>BasicBlock.__init__(self, inplanes, planes, stride=1, downsample=None)\<close>\<close>

definition BasicBlock_init ::
  "('t, 'f) nn \<Rightarrow> nat \<Rightarrow> nat \<Rightarrow> nat \<Rightarrow> 't module option \<Rightarrow> 't BasicBlock" where
  "BasicBlock_init NN inplanes planes stride_arg downsample_arg =
     \<lparr>BasicBlock.conv1 = conv3x3 NN inplanes planes stride_arg,
      bn1 = BatchNorm2d NN planes,
      relu = ReLU NN,
      conv2 = conv3x3 NN planes planes 1,
      bn2 = BatchNorm2d NN planes,
      downsample = downsample_arg,
      stride = stride_arg\<rparr>"

text \<open>
  \<open>BasicBlock.forward(self, x)\<close>. The statements are taken in the order of the source, so
  that the first exception is the one raised. The in-place operations (\<open>out += residual\<close>
  and the in-place \<open>relu\<close>) act on tensors that the preceding convolution or batch
  normalisation has just created; \<open>x\<close> itself is not written.
\<close>

definition BasicBlock_forward :: "('t, 'f) nn \<Rightarrow> 't BasicBlock \<Rightarrow> 't module" where
  "BasicBlock_forward NN blk x =
     (let residual = x
      in case BasicBlock.conv1 blk x of Inl e \<Rightarrow> Inl e | Inr out1 \<Rightarrow>
        (case BasicBlock.bn1 blk out1 of Inl e \<Rightarrow> Inl e | Inr out2 \<Rightarrow>
        (case BasicBlock.relu blk out2 of Inl e \<Rightarrow> Inl e | Inr out3 \<Rightarrow>
        (case conv2 blk out3 of Inl e \<Rightarrow> Inl e | Inr out4 \<Rightarrow>
        (case bn2 blk out4 of Inl e \<Rightarrow> Inl e | Inr out5 \<Rightarrow>
        (case (case downsample blk of None \<Rightarrow> Inr residual | Some d \<Rightarrow> d x) of
           Inl e \<Rightarrow> Inl e
         | Inr residual' \<Rightarrow>
        (case iadd NN out5 residual' of Inl e \<Rightarrow> Inl e | Inr out6 \<Rightarrow>
           BasicBlock.relu blk out6)))))))"

section \<open>The model object\<close>

text \<open>
  The attributes of a \<open>Wide_ResNet_Cifar\<close> object, in the order of the constructor. A tensor
  is a value of the type variable \<open>'v\<close>, a Python float one of \<open>'f\<close>, and a child module
  one of \<open>'m\<close>. \<open>alphas\<close> and \<open>gumbel\<close> are plain tensor attributes, not registered
  parameters, so they are no entries of any state dictionary. The attribute \<open>ops\<close> is read by
  \<open>load_combination\<close> but assigned nowhere in the file: it is \<open>None\<close> until a caller
  assigns it. \<open>load_combination\<close> subscripts it with an index tensor, so it is a tensor; it
  holds checkpoint numbers, integers of 64 bits (the integer type of the framework), and
  arithmetic on its entries wraps around like theirs.
\<close>

record ('m, 'v, 'f) Wide_ResNet_Cifar =
  inplanes :: nat
  conv1 :: 'm
  bn1 :: 'm
  relu :: 'm
  layer1 :: 'm
  layer2 :: 'm
  layer3 :: 'm
  avgpool :: 'm
  fc :: 'm
  temp :: 'f
  tau :: 'f
  weight_root :: "string option"
  model_name :: string
  alphas :: 'v
  gumbel :: 'v
  ops :: "64 word list option"

text \<open>
  For the loaders a child module is what \<open>load_state_dict\<close> reads and writes: its own
  parameters and buffers under their names relative to the child (\<open>weight\<close>,
  \<open>0.conv1.weight\<close>, ...), in the order of \<open>state_dict()\<close>. The children \<open>relu\<close> and
  \<open>avgpool\<close> hold no tensors.
\<close>

type_synonym ('v, 'f) model = "('v dict, 'v, 'f) Wide_ResNet_Cifar"

text \<open>\<open>self.block_names\<close>, assigned once by the constructor.\<close>

definition block_names :: "string list" where
  "block_names = [''layer1'', ''layer2'', ''layer3'', ''fc'']"

text \<open>\<open>getattr(self, name)\<close> for the names of the child modules, and the in-place change
  of such a child.\<close>

definition getattr :: "('v, 'f) model \<Rightarrow> string \<Rightarrow> 'v dict option" where
  "getattr st name =
     (if name = ''conv1'' then Some (conv1 st)
      else if name = ''bn1'' then Some (bn1 st)
      else if name = ''relu'' then Some (relu st)
      else if name = ''layer1'' then Some (layer1 st)
      else if name = ''layer2'' then Some (layer2 st)
      else if name = ''layer3'' then Some (layer3 st)
      else if name = ''avgpool'' then Some (avgpool st)
      else if name = ''fc'' then Some (fc st)
      else None)"

definition put_module ::
  "('v, 'f) model \<Rightarrow> string \<Rightarrow> 'v dict \<Rightarrow> ('v, 'f) model" where
  "put_module st name m =
     (if name = ''conv1'' then st\<lparr>conv1 := m\<rparr>
      else if name = ''bn1'' then st\<lparr>bn1 := m\<rparr>
      else if name = ''relu'' then st\<lparr>relu := m\<rparr>
      else if name = ''layer1'' then st\<lparr>layer1 := m\<rparr>
      else if name = ''layer2'' then st\<lparr>layer2 := m\<rparr>
      else if name = ''layer3'' then st\<lparr>layer3 := m\<rparr>
      else if name = ''avgpool'' then st\<lparr>avgpool := m\<rparr>
      else if name = ''fc'' then st\<lparr>fc := m\<rparr>
      else st)"

section \<open>The framework\<close>

text \<open>
  What the file calls but does not define. \<open>torch_files\<close> is the file system as
  \<open>torch.load\<close> sees it: the dictionary stored under each path. \<open>torch_copy p v\<close> is
  \<open>param.copy_(input_param)\<close> inside \<open>load_state_dict\<close>: the new value of the parameter
  \<open>p\<close>, or \<open>None\<close> when the framework reports \<open>v\<close> as incompatible with \<open>p\<close> (a size
  mismatch). \<open>torch_cat\<close> and \<open>torch_argmax\<close> are \<open>torch.cat\<close> and \<open>torch.argmax\<close>;
  the index tensor that \<open>argmax\<close> returns is a list of integers.

  Modelled from the spec: \<open>gumbel_softmax_v1\<close> of the module \<open>utils\<close> is not part of the
  file. The spec calls it the Gumbel-Softmax relaxation delegated to the framework; it is
  taken as a function of its four arguments (logits, \<open>tau\<close>, \<open>dim\<close> and the noise \<open>g\<close>).
\<close>

record ('v, 'f) framework =
  torch_files :: "string \<rightharpoonup> 'v dict"
  torch_copy :: "'v \<Rightarrow> 'v \<Rightarrow> 'v option"
  torch_cat :: "'v \<Rightarrow> 'v"
  torch_argmax :: "'v \<Rightarrow> int \<Rightarrow> int list"
  gumbel_softmax :: "'v \<Rightarrow> 'f \<Rightarrow> int \<Rightarrow> 'v \<Rightarrow> 'v"

text \<open>
  \<open>load_state_dict\<close> visits every own entry \<open>k\<close> of a module; with the prefix \<open>pre\<close> of
  the module, the entry is looked up under \<open>pre + k\<close>. When the key is present and the
  copy succeeds the entry takes the new value; when the copy is refused the entry stays and
  an error message is recorded; when the key is absent the entry stays and the key is
  missing.
\<close>

definition loaded :: "('v \<Rightarrow> 'v \<Rightarrow> 'v option) \<Rightarrow> string \<Rightarrow> 'v dict \<Rightarrow> 'v dict \<Rightarrow> 'v dict" where
  "loaded cp pre state_dict own =
     map (\<lambda>(k, p). (k, case map_of state_dict (pre @ k) of
                          None \<Rightarrow> p
                        | Some v \<Rightarrow> (case cp p v of None \<Rightarrow> p | Some p' \<Rightarrow> p'))) own"

definition mismatched :: "('v \<Rightarrow> 'v \<Rightarrow> 'v option) \<Rightarrow> string \<Rightarrow> 'v dict \<Rightarrow> 'v dict \<Rightarrow> string list" where
  "mismatched cp pre state_dict own =
     map (\<lambda>(k, p). pre @ k)
       (filter (\<lambda>(k, p). case map_of state_dict (pre @ k) of
                            None \<Rightarrow> False
                          | Some v \<Rightarrow> cp p v = None) own)"

definition missing_keys :: "string \<Rightarrow> 'v dict \<Rightarrow> 'v dict \<Rightarrow> string list" where
  "missing_keys pre state_dict own =
     map (\<lambda>(k, p). pre @ k) (filter (\<lambda>(k, p). map_of state_dict (pre @ k) = None) own)"

text \<open>\<open>child.load_state_dict(state_dict, strict=False)\<close> on a child module: missing and
  unexpected keys are ignored, a refused copy raises \<open>RuntimeError\<close> after all entries
  were visited. The result is the raised error, if any, and the child as it is left.\<close>

definition load_state_dict_module ::
  "('v \<Rightarrow> 'v \<Rightarrow> 'v option) \<Rightarrow> 'v dict \<Rightarrow> 'v dict \<Rightarrow> error option \<times> 'v dict" where
  "load_state_dict_module cp own state_dict =
     (if mismatched cp [] state_dict own = [] then None else Some RuntimeError,
      loaded cp [] state_dict own)"

text \<open>\<open>self.load_state_dict(state_dict, strict)\<close> on the whole model: every child is
  loaded under the prefix \<open>name + '.'\<close>. With \<open>strict\<close>, a missing or an unexpected key
  is an error as well.\<close>

definition named_children :: "('v, 'f) model \<Rightarrow> (string \<times> 'v dict) list" where
  "named_children st =
     [(''conv1'', conv1 st), (''bn1'', bn1 st), (''relu'', relu st),
      (''layer1'', layer1 st), (''layer2'', layer2 st), (''layer3'', layer3 st),
      (''avgpool'', avgpool st), (''fc'', fc st)]"

definition own_keys :: "('v, 'f) model \<Rightarrow> string list" where
  "own_keys st = concat (map (\<lambda>(name, m). map (\<lambda>(k, p). name @ ''.'' @ k) m) (named_children st))"

definition load_state_dict ::
  "('v \<Rightarrow> 'v \<Rightarrow> 'v option) \<Rightarrow> ('v, 'f) model \<Rightarrow> 'v dict \<Rightarrow> bool \<Rightarrow>
     error option \<times> ('v, 'f) model" where
  "load_state_dict cp st state_dict strict =
     (let error_msgs = concat (map (\<lambda>(name, m). mismatched cp (name @ ''.'') state_dict m)
                                (named_children st));
          missing = concat (map (\<lambda>(name, m). missing_keys (name @ ''.'') state_dict m)
                             (named_children st));
          unexpected = filter (\<lambda>k. k \<notin> set (own_keys st)) (map fst state_dict)
      in (if error_msgs = [] \<and> (\<not> strict \<or> (missing = [] \<and> unexpected = []))
          then None else Some RuntimeError,
          st\<lparr>conv1 := loaded cp ''conv1.'' state_dict (conv1 st),
             bn1 := loaded cp ''bn1.'' state_dict (bn1 st),
             relu := loaded cp ''relu.'' state_dict (relu st),
             layer1 := loaded cp ''layer1.'' state_dict (layer1 st),
             layer2 := loaded cp ''layer2.'' state_dict (layer2 st),
             layer3 := loaded cp ''layer3.'' state_dict (layer3 st),
             avgpool := loaded cp ''avgpool.'' state_dict (avgpool st),
             fc := loaded cp ''fc.'' state_dict (fc st)\<rparr>))"

section \<open>The loaders\<close>

text \<open>The model object together with the paths handed to \<open>torch.load\<close> so far, oldest
  first.\<close>

record ('v, 'f) world =
  self :: "('v, 'f) model"
  reads :: "string list"

definition torch_load ::
  "('v, 'f) framework \<Rightarrow> string \<Rightarrow> ('v, 'f) world \<Rightarrow> (error + 'v dict) \<times> ('v, 'f) world" where
  "torch_load T path w =
     (case torch_files T path of None \<Rightarrow> Inl FileNotFoundError | Some d \<Rightarrow> Inr d,
      w\<lparr>reads := reads w @ [path]\<rparr>)"

text \<open>
  The body of the \<open>for block_name in self.block_names\<close> loop once the checkpoint number
  \<open>n\<close> is known; the three loaders have the same body:
  \<^verbatim>\<open>
  saved_model_name = "{}/{}_cross_entropy_{}.model".format(self.weight_root, self.model_name, n)
  model_dict = torch.load(str(saved_model_name))
  ... the renaming step ...
  getattr(self, block_name).load_state_dict(model_dict, strict=False)
  \<close>
\<close>

definition load_block ::
  "('v, 'f) framework \<Rightarrow> string \<Rightarrow> int \<Rightarrow> ('v, 'f) world \<Rightarrow> error option \<times> ('v, 'f) world" where
  "load_block T block_name n w =
     (case torch_load T (saved_model_name (weight_root (self w)) (model_name (self w)) n) w of
        (Inl e, w1) \<Rightarrow> (Some e, w1)
      | (Inr model_dict, w1) \<Rightarrow>
          (case getattr (self w1) block_name of
             None \<Rightarrow> (Some AttributeError, w1)
           | Some m \<Rightarrow>
               (case load_state_dict_module (torch_copy T) m (rename_block block_name model_dict) of
                  (err, m') \<Rightarrow> (err, w1\<lparr>self := put_module (self w1) block_name m'\<rparr>))))"

text \<open>
  The loop itself. The loaders differ in the expression for the checkpoint number only; it
  is the argument \<open>number\<close>, evaluated in each round at
  \<open>idx = self.block_names.index(block_name)\<close> before the file is opened. An exception
  ends the loop.
\<close>

fun load_blocks ::
  "('v, 'f) framework \<Rightarrow> (('v, 'f) world \<Rightarrow> nat \<Rightarrow> error + int) \<Rightarrow> string list \<Rightarrow>
     ('v, 'f) world \<Rightarrow> error option \<times> ('v, 'f) world" where
  "load_blocks T number [] w = (None, w)"
| "load_blocks T number (block_name # rest) w =
     (case list_index block_names block_name of
        Inl e \<Rightarrow> (Some e, w)
      | Inr idx \<Rightarrow>
          (case number w idx of
             Inl e \<Rightarrow> (Some e, w)
           | Inr n \<Rightarrow>
               (case load_block T block_name n w of
                  (Some e, w1) \<Rightarrow> (Some e, w1)
                | (None, w1) \<Rightarrow> load_blocks T number rest w1)))"

text \<open>\<open>self.ops[index[idx]] + 1\<close>: the attribute is read first, then the subscripts. The
  sum is computed on the entry of the tensor, in 64 bits with wrap-around; \<open>format\<close> prints
  its signed value.\<close>

definition ops_number :: "int list \<Rightarrow> ('v, 'f) world \<Rightarrow> nat \<Rightarrow> error + int" where
  "ops_number index w idx =
     (case ops (self w) of
        None \<Rightarrow> Inl AttributeError
      | Some table \<Rightarrow>
          (case getitem index (int idx) of
             Inl e \<Rightarrow> Inl e
           | Inr i \<Rightarrow> (case getitem table i of Inl e \<Rightarrow> Inl e | Inr c \<Rightarrow> Inr (sint (c + 1)))))"

definition load_combination ::
  "('v, 'f) framework \<Rightarrow> int list \<Rightarrow> ('v, 'f) world \<Rightarrow>
     (error + 64 word list) \<times> ('v, 'f) world" where
  "load_combination T index w =
     (case torch_load T (saved_model_name (weight_root (self w)) (model_name (self w)) 350) w of
        (Inl e, w1) \<Rightarrow> (Inl e, w1)
      | (Inr model_dict, w1) \<Rightarrow>
          (case load_state_dict (torch_copy T) (self w1) model_dict False of
             (Some e, st) \<Rightarrow> (Inl e, w1\<lparr>self := st\<rparr>)
           | (None, st) \<Rightarrow>
               (case load_blocks T (ops_number index) block_names (w1\<lparr>self := st\<rparr>) of
                  (Some e, w2) \<Rightarrow> (Inl e, w2)
                | (None, w2) \<Rightarrow>
                    (case ops (self w2) of
                       None \<Rightarrow> (Inl AttributeError, w2)
                     | Some table \<Rightarrow> (gather table index, w2)))))"

text \<open>\<open>combination[0] + 1\<close>, the number that \<open>load_combination_weight\<close> formats in every
  round of its loop.\<close>

definition first_number :: "int list \<Rightarrow> ('v, 'f) world \<Rightarrow> nat \<Rightarrow> error + int" where
  "first_number combination w idx =
     (case getitem combination 0 of Inl e \<Rightarrow> Inl e | Inr c \<Rightarrow> Inr (c + 1))"

text \<open>The parameter \<open>model_name\<close> of \<open>load_combination_weight\<close> is not used by its body,
  which formats \<open>self.model_name\<close>. The method returns \<open>None\<close>.\<close>

definition load_combination_weight ::
  "('v, 'f) framework \<Rightarrow> int list \<Rightarrow> string \<Rightarrow> string \<Rightarrow> ('v, 'f) world \<Rightarrow>
     (error + unit) \<times> ('v, 'f) world" where
  "load_combination_weight T combination weight_folder model_name_arg w =
     (let w0 = w\<lparr>self := (self w)\<lparr>weight_root := Some weight_folder\<rparr>\<rparr>
      in case torch_load T (saved_model_name (weight_root (self w0)) (model_name (self w0)) 350) w0 of
        (Inl e, w1) \<Rightarrow> (Inl e, w1)
      | (Inr model_dict, w1) \<Rightarrow>
          (case load_state_dict (torch_copy T) (self w1) model_dict False of
             (Some e, st) \<Rightarrow> (Inl e, w1\<lparr>self := st\<rparr>)
           | (None, st) \<Rightarrow>
               (case load_blocks T (first_number combination) block_names (w1\<lparr>self := st\<rparr>) of
                  (Some e, w2) \<Rightarrow> (Inl e, w2)
                | (None, w2) \<Rightarrow> (Inr (), w2))))"

text \<open>\<open>arch_weights(self, smooth=False, cat=True)\<close>.\<close>

definition arch_weights ::
  "('v, 'f) framework \<Rightarrow> ('m, 'v, 'f) Wide_ResNet_Cifar \<Rightarrow> bool \<Rightarrow> bool \<Rightarrow> 'v" where
  "arch_weights T st smooth cat =
     (let weights = gumbel_softmax T (alphas st) (tau st) (- 1) (gumbel st)
      in if cat then torch_cat T weights else weights)"

text \<open>\<open>combination[idx] + 1\<close>, the number in the loop of \<open>load_gumbel_weight\<close>.\<close>

definition nth_number :: "int list \<Rightarrow> ('v, 'f) world \<Rightarrow> nat \<Rightarrow> error + int" where
  "nth_number combination w idx =
     (case getitem combination (int idx) of Inl e \<Rightarrow> Inl e | Inr c \<Rightarrow> Inr (c + 1))"

definition load_gumbel_weight ::
  "('v, 'f) framework \<Rightarrow> ('v, 'f) world \<Rightarrow> (error + int list) \<times> ('v, 'f) world" where
  "load_gumbel_weight T w =
     (let weights = arch_weights T (self w) False False;
          combination = torch_argmax T weights (- 1)
      in case getitem combination 0 of
        Inl e \<Rightarrow> (Inl e, w)
      | Inr c \<Rightarrow>
          (case torch_load T (saved_model_name (weight_root (self w)) (model_name (self w)) (c + 1)) w of
             (Inl e, w1) \<Rightarrow> (Inl e, w1)
           | (Inr model_dict, w1) \<Rightarrow>
               (case load_state_dict (torch_copy T) (self w1) model_dict True of
                  (Some e, st) \<Rightarrow> (Inl e, w1\<lparr>self := st\<rparr>)
                | (None, st) \<Rightarrow>
                    (case load_blocks T (nth_number combination) block_names (w1\<lparr>self := st\<rparr>) of
                       (Some e, w2) \<Rightarrow> (Inl e, w2)
                     | (None, w2) \<Rightarrow> (Inr combination, w2)))))"

section \<open>Construction and forward pass of the network\<close>

text \<open>
  \<open>_make_layer(self, block, planes, blocks, stride=1)\<close> with \<open>block = BasicBlock\<close>, the
  class that \<open>wide_resnet_cifar\<close> passes. The method reads and assigns \<open>self.inplanes\<close>;
  the model takes it as an argument and returns the new value with the layer. \<open>blocks\<close> is
  \<open>int(blocks)\<close>; \<open>range(1, int(blocks))\<close> has \<open>blocks - 1\<close> elements, none when
  \<open>blocks\<close> is below 2.
\<close>

definition make_layer ::
  "('t, 'f) nn \<Rightarrow> nat \<Rightarrow> nat \<Rightarrow> nat \<Rightarrow> nat \<Rightarrow> 't module \<times> nat" where
  "make_layer NN self_inplanes planes blocks stride_arg =
     (let downsample_arg =
            (if stride_arg \<noteq> 1 \<or> self_inplanes \<noteq> planes * expansion
             then Some (Sequential
                    [Conv2d NN self_inplanes (planes * expansion) 1 stride_arg 0,
                     BatchNorm2d NN (planes * expansion)])
             else None);
          first = BasicBlock_forward NN
                    (BasicBlock_init NN self_inplanes planes stride_arg downsample_arg);
          new_inplanes = planes * expansion;
          rest = replicate (blocks - 1)
                   (BasicBlock_forward NN (BasicBlock_init NN new_inplanes planes 1 None))
      in (Sequential (first # rest), new_inplanes))"

text \<open>
  The \<open>Conv2d\<close> modules that \<open>_make_layer\<close> registers, each as its \<open>kernel_size\<close> and its
  \<open>out_channels\<close>, in the order of \<open>self.modules()\<close>: in the first block \<open>conv1\<close>,
  \<open>conv2\<close> and the convolution of the downsample module when there is one, then \<open>conv1\<close>
  and \<open>conv2\<close> of every further block.
\<close>

definition make_layer_convs :: "nat \<Rightarrow> nat \<Rightarrow> nat \<Rightarrow> nat \<Rightarrow> (nat \<times> nat) list" where
  "make_layer_convs self_inplanes planes blocks stride_arg =
     [(3, planes), (3, planes)] @
     (if stride_arg \<noteq> 1 \<or> self_inplanes \<noteq> planes * expansion
      then [(1, planes * expansion)] else []) @
     concat (replicate (blocks - 1) [(3, planes), (3, planes)])"

text \<open>
  The loop of the constructor over \<open>self.modules()\<close>, on the list of its \<open>Conv2d\<close> modules:
  \<^verbatim>\<open>
  n = m.kernel_size[0] * m.kernel_size[1] * m.out_channels
  m.weight.data.normal_(0, math.sqrt(2. / n))
  \<close>
  The division raises \<open>ZeroDivisionError\<close> at the first convolution with \<open>n = 0\<close>. The
  values that the loop assigns to the weights (and, in its other branch, to the weights and
  biases of the \<open>BatchNorm2d\<close> modules) are not represented; the loop changes no attribute
  and no size.
\<close>

fun init_weights :: "(nat \<times> nat) list \<Rightarrow> error option" where
  "init_weights [] = None"
| "init_weights ((kernel_size, out_channels) # ms) =
     (let n = kernel_size * kernel_size * out_channels
      in if n = 0 then Some ZeroDivisionError else init_weights ms)"

text \<open>
  What \<open>_initialize_alphas\<close> takes from the framework: \<open>torch.randn(k, num_ops)\<close> draws
  from a generator, whose state has the type \<open>'g\<close>; \<open>as_parameter\<close> is
  \<open>(1e-3 * t).to('cuda').requires_grad_(True)\<close>, which raises when the framework finds no
  such device.

  Modelled from the spec: \<open>gumbel_like\<close> of the module \<open>utils\<close> is not part of the file.
  The spec says that the Gumbel noise is sampled for the Gumbel-Softmax sampler; it is taken
  as a draw from the generator that may depend on the tensor it is given.
\<close>

record ('v, 'g) sampler =
  randn :: "'g \<Rightarrow> nat \<Rightarrow> nat \<Rightarrow> 'v \<times> 'g"
  as_parameter :: "'v \<Rightarrow> error + 'v"
  gumbel_like :: "'g \<Rightarrow> 'v \<Rightarrow> 'v \<times> 'g"

text \<open>\<open>_initialize_alphas(self)\<close>: the values that the method assigns to \<open>self.alphas\<close>
  and \<open>self.gumbel\<close>, and the generator after the two draws.\<close>

definition initialize_alphas ::
  "('v, 'g) sampler \<Rightarrow> 'g \<Rightarrow> error + ('v \<times> 'v) \<times> 'g" where
  "initialize_alphas S g =
     (let k = 4;
          num_ops = 350;
          (a, g1) = randn S g k num_ops
      in case as_parameter S a of
           Inl e \<Rightarrow> Inl e
         | Inr new_alphas \<Rightarrow>
             (let (noise, g2) = gumbel_like S g1 new_alphas
              in Inr ((new_alphas, noise), g2)))"

text \<open>
  \<open>Wide_ResNet_Cifar.__init__(self, block, layers, wfactor, num_classes=10, temp=1.0,
  criterion=None, tau=0.1, weight_root=None)\<close> with \<open>block = BasicBlock\<close>. \<open>layers\<close> holds
  the values \<open>int(layers[i])\<close>; a list with fewer than three entries raises \<open>IndexError\<close>.
  The loop over \<open>self.modules()\<close> meets the convolution of the stem and then those of the
  three layers. \<open>g\<close> is the generator as \<open>_initialize_alphas\<close> finds it. \<open>criterion\<close> is
  not used, and \<open>ops\<close> is not assigned.
\<close>

definition Wide_ResNet_Cifar_init ::
  "('t, 'f) nn \<Rightarrow> ('t, 'g) sampler \<Rightarrow> 'g \<Rightarrow> nat list \<Rightarrow> nat \<Rightarrow> nat \<Rightarrow> 'f \<Rightarrow> 'f \<Rightarrow>
     string option \<Rightarrow> error + ('t module, 't, 'f) Wide_ResNet_Cifar \<times> 'g" where
  "Wide_ResNet_Cifar_init NN S g layers wfactor num_classes temp_arg tau_arg weight_root_arg =
     (case getitem layers 0 of Inl e \<Rightarrow> Inl e | Inr blocks1 \<Rightarrow>
     (let (l1, inplanes1) = make_layer NN 16 (16 * wfactor) blocks1 1
      in case getitem layers 1 of Inl e \<Rightarrow> Inl e | Inr blocks2 \<Rightarrow>
     (let (l2, inplanes2) = make_layer NN inplanes1 (32 * wfactor) blocks2 2
      in case getitem layers 2 of Inl e \<Rightarrow> Inl e | Inr blocks3 \<Rightarrow>
     (let (l3, inplanes3) = make_layer NN inplanes2 (64 * wfactor) blocks3 2
      in case init_weights
                ((3, 16) # make_layer_convs 16 (16 * wfactor) blocks1 1 @
                 make_layer_convs inplanes1 (32 * wfactor) blocks2 2 @
                 make_layer_convs inplanes2 (64 * wfactor) blocks3 2) of
           Some e \<Rightarrow> Inl e
         | None \<Rightarrow>
     (case initialize_alphas S g of Inl e \<Rightarrow> Inl e | Inr ((new_alphas, noise), g') \<Rightarrow>
        Inr (\<lparr>inplanes = inplanes3,
             conv1 = Conv2d NN 3 16 3 1 1,
             bn1 = BatchNorm2d NN 16,
             relu = ReLU NN,
             layer1 = l1,
             layer2 = l2,
             layer3 = l3,
             avgpool = AvgPool2d NN 8 1,
             fc = Linear NN (64 * expansion * wfactor) num_classes,
             temp = temp_arg,
             tau = tau_arg,
             weight_root = weight_root_arg,
             model_name = ''wide_resnet'',
             alphas = new_alphas,
             gumbel = noise,
             ops = None\<rparr>, g'))))))"

text \<open>\<open>Wide_ResNet_Cifar.forward(self, x)\<close>\<close>

definition forward ::
  "('t, 'f) nn \<Rightarrow> ('t module, 't, 'f) Wide_ResNet_Cifar \<Rightarrow> 't module" where
  "forward NN net x =
     (case conv1 net x of Inl e \<Rightarrow> Inl e | Inr x1 \<Rightarrow>
     (case bn1 net x1 of Inl e \<Rightarrow> Inl e | Inr x2 \<Rightarrow>
     (case relu net x2 of Inl e \<Rightarrow> Inl e | Inr x3 \<Rightarrow>
     (case layer1 net x3 of Inl e \<Rightarrow> Inl e | Inr x4 \<Rightarrow>
     (case layer2 net x4 of Inl e \<Rightarrow> Inl e | Inr x5 \<Rightarrow>
     (case layer3 net x5 of Inl e \<Rightarrow> Inl e | Inr x6 \<Rightarrow>
     (case avgpool net x6 of Inl e \<Rightarrow> Inl e | Inr x7 \<Rightarrow>
     (case view_rows NN x7 of Inl e \<Rightarrow> Inl e | Inr x8 \<Rightarrow>
     (case fc net x8 of Inl e \<Rightarrow> Inl e | Inr x9 \<Rightarrow>
        Inr (truediv NN x9 (temp net)))))))))))"

section \<open>A small concrete instance\<close>

text \<open>
  An instance on which the functions above can be run. A tensor is a pair of a size and a
  number that identifies its contents; \<open>copy_\<close> accepts a tensor of the same size. The
  model has one tensor in each of \<open>conv1\<close>, \<open>bn1\<close>, \<open>layer1\<close>, \<open>layer2\<close> and
  \<open>layer3\<close>, two in \<open>fc\<close> and none in \<open>relu\<close> and \<open>avgpool\<close>. Checkpoint number \<open>n\<close> holds, for every key of the
  model, a tensor of the right size whose contents are numbered from \<open>10 * n\<close>. The
  directory \<open>w\<close> holds the checkpoints 1 to 4 and 350.
\<close>

definition ex_checkpoint :: "nat \<Rightarrow> (nat \<times> nat) dict" where
  "ex_checkpoint n =
     [(''conv1.weight'', (432, 10 * n)), (''bn1.weight'', (16, 10 * n + 1)),
      (''layer1.0.conv1.weight'', (2304, 10 * n + 2)),
      (''layer2.0.conv1.weight'', (4608, 10 * n + 3)),
      (''layer3.0.conv1.weight'', (18432, 10 * n + 4)),
      (''fc.weight'', (640, 10 * n + 5)), (''fc.bias'', (10, 10 * n + 6))]"

definition ex_files :: "string \<rightharpoonup> (nat \<times> nat) dict" where
  "ex_files path =
     (if path = ''w/wide_resnet_cross_entropy_350.model'' then Some (ex_checkpoint 350)
      else if path = ''w/wide_resnet_cross_entropy_1.model'' then Some (ex_checkpoint 1)
      else if path = ''w/wide_resnet_cross_entropy_2.model'' then Some (ex_checkpoint 2)
      else if path = ''w/wide_resnet_cross_entropy_3.model'' then Some (ex_checkpoint 3)
      else if path = ''w/wide_resnet_cross_entropy_4.model'' then Some (ex_checkpoint 4)
      else None)"

definition ex_torch :: "(nat \<times> nat, nat) framework" where
  "ex_torch =
     \<lparr>torch_files = ex_files,
      torch_copy = (\<lambda>p v. if fst p = fst v then Some v else None),
      torch_cat = (\<lambda>v. v),
      torch_argmax = (\<lambda>v d. [0, 1, 2, 3]),
      gumbel_softmax = (\<lambda>a t d g. (fst a, snd a + snd g))\<rparr>"

definition ex_model :: "(nat \<times> nat, nat) model" where
  "ex_model =
     \<lparr>inplanes = 640,
      conv1 = [(''weight'', (432, 0))], bn1 = [(''weight'', (16, 0))], relu = [],
      layer1 = [(''0.conv1.weight'', (2304, 0))],
      layer2 = [(''0.conv1.weight'', (4608, 0))],
      layer3 = [(''0.conv1.weight'', (18432, 0))],
      avgpool = [],
      fc = [(''weight'', (640, 0)), (''bias'', (10, 0))],
      temp = 1, tau = 1, weight_root = Some ''w'', model_name = ''wide_resnet'',
      alphas = (1400, 7), gumbel = (1400, 8), ops = Some [3, 2, 1, 0]\<rparr>"

definition ex_world :: "(nat \<times> nat, nat) world" where
  "ex_world = \<lparr>self = ex_model, reads = []\<rparr>"

text \<open>The paths in \<open>ps\<close> are checkpoint names under the root and model name of \<open>w\<close>.\<close>

definition named :: "('v, 'f) world \<Rightarrow> string list \<Rightarrow> bool" where
  "named w ps \<longleftrightarrow>
     (\<forall>p \<in> set ps. \<exists>n. p = saved_model_name (weight_root (self w)) (model_name (self w)) n)"

section \<open>Loading a block from a numbered checkpoint\<close>

text \<open>
  What the claims about the loaders call loading the sub-block \<open>block_name\<close> from the
  checkpoint numbered \<open>n\<close>: the file of that number under the model's root is read, its
  entries for the block are renamed and merged, and the block takes the values found under its
  keys. The result is the block after the load, or \<open>None\<close> when the file is absent, the name
  is no child module or the framework refuses a tensor. The loaders of the source are compared
  with this definition below.
\<close>

definition block_from_checkpoint ::
  "('v, 'f) framework \<Rightarrow> ('v, 'f) model \<Rightarrow> string \<Rightarrow> int \<Rightarrow> 'v dict option" where
  "block_from_checkpoint T st block_name n =
     (case torch_files T (saved_model_name (weight_root st) (model_name st) n) of
        None \<Rightarrow> None
      | Some d \<Rightarrow>
          (case getattr st block_name of
             None \<Rightarrow> None
           | Some m \<Rightarrow>
               if mismatched (torch_copy T) [] (rename_block block_name d) m = []
               then Some (loaded (torch_copy T) [] (rename_block block_name d) m)
               else None))"

section \<open>The sizes of tensors in the forward pass\<close>

text \<open>
  The values of the tensors are floating-point numbers computed by the framework. What the
  file fixes is how the modules are wired and which sizes they are built with, so a tensor is
  represented here by its size, the list \<open>x.size()\<close>, and every module class by the rule of
  the framework's documentation for the size of its output, with the exception that the
  framework raises when the input does not fit.

  \<open>Conv2d\<close> takes a batch \<open>[N, C, H, W]\<close> or a single image \<open>[C, H, W]\<close> with
  \<open>C = in_channels\<close>; each spatial extent \<open>n\<close> becomes
  \<open>(n + 2 * padding - kernel_size) div stride + 1\<close>.
\<close>

definition conv_out :: "nat \<Rightarrow> nat \<Rightarrow> nat \<Rightarrow> nat \<Rightarrow> nat" where
  "conv_out n k s p = (n + 2 * p - k) div s + 1"

definition conv2d_size :: "nat \<Rightarrow> nat \<Rightarrow> nat \<Rightarrow> nat \<Rightarrow> nat \<Rightarrow> nat list module" where
  "conv2d_size cin cout k s p x =
     (case x of
        [n, c, h, w] \<Rightarrow>
          if c = cin \<and> 0 < s \<and> k \<le> h + 2 * p \<and> k \<le> w + 2 * p
          then Inr [n, cout, conv_out h k s p, conv_out w k s p]
          else Inl RuntimeError
      | [c, h, w] \<Rightarrow>
          if c = cin \<and> 0 < s \<and> k \<le> h + 2 * p \<and> k \<le> w + 2 * p
          then Inr [cout, conv_out h k s p, conv_out w k s p]
          else Inl RuntimeError
      | _ \<Rightarrow> Inl RuntimeError)"

text \<open>
  \<open>BatchNorm2d\<close> accepts four-dimensional input only (\<open>ValueError\<close> otherwise); in training
  mode it raises \<open>ValueError\<close> when there is a single value per channel; the number of
  channels must be \<open>num_features\<close>. The size is unchanged.
\<close>

definition batchnorm2d_size :: "bool \<Rightarrow> nat \<Rightarrow> nat list module" where
  "batchnorm2d_size training num_features x =
     (case x of
        [n, c, h, w] \<Rightarrow>
          if training \<and> n * h * w = 1 then Inl ValueError
          else if c = num_features then Inr [n, c, h, w]
          else Inl RuntimeError
      | _ \<Rightarrow> Inl ValueError)"

definition relu_size :: "nat list module" where
  "relu_size x = Inr x"

text \<open>\<open>AvgPool2d(kernel_size, stride)\<close>, without padding: each spatial extent \<open>n\<close> becomes
  \<open>(n - kernel_size) div stride + 1\<close>; a window larger than the input raises.\<close>

definition avgpool2d_size :: "nat \<Rightarrow> nat \<Rightarrow> nat list module" where
  "avgpool2d_size k s x =
     (case x of
        [n, c, h, w] \<Rightarrow>
          if 0 < s \<and> 0 < k \<and> k \<le> h \<and> k \<le> w
          then Inr [n, c, (h - k) div s + 1, (w - k) div s + 1]
          else Inl RuntimeError
      | [c, h, w] \<Rightarrow>
          if 0 < s \<and> 0 < k \<and> k \<le> h \<and> k \<le> w
          then Inr [c, (h - k) div s + 1, (w - k) div s + 1]
          else Inl RuntimeError
      | _ \<Rightarrow> Inl RuntimeError)"

text \<open>\<open>Linear\<close> replaces the last extent, which must be \<open>in_features\<close>, by
  \<open>out_features\<close>.\<close>

definition linear_size :: "nat \<Rightarrow> nat \<Rightarrow> nat list module" where
  "linear_size in_features out_features x =
     (if x \<noteq> [] \<and> last x = in_features then Inr (butlast x @ [out_features])
      else Inl RuntimeError)"

text \<open>\<open>out += residual\<close> keeps the size of \<open>out\<close>; \<open>residual\<close> must broadcast to it: aligned
  at the last dimension, each extent of \<open>residual\<close> is the one of \<open>out\<close> or 1.\<close>

definition broadcasts_to :: "nat list \<Rightarrow> nat list \<Rightarrow> bool" where
  "broadcasts_to r out \<longleftrightarrow>
     length r \<le> length out \<and>
     list_all2 (\<lambda>a b. a = b \<or> a = 1) r (drop (length out - length r) out)"

definition iadd_size :: "nat list \<Rightarrow> nat list \<Rightarrow> error + nat list" where
  "iadd_size out residual = (if broadcasts_to residual out then Inr out else Inl RuntimeError)"

text \<open>\<open>x.view(x.size(0), -1)\<close>: \<open>x.size(0)\<close> raises \<open>IndexError\<close> on a tensor without
  dimensions; the extent \<open>-1\<close> is the number of elements of one row, and cannot be inferred
  for an empty batch.\<close>

definition view_rows_size :: "nat list \<Rightarrow> error + nat list" where
  "view_rows_size x =
     (case x of
        [] \<Rightarrow> Inl IndexError
      | n # rest \<Rightarrow> if n = 0 then Inl RuntimeError else Inr [n, prod_list rest])"

text \<open>The framework on sizes; \<open>training\<close> is the mode of the modules. Division by a float
  keeps the size.\<close>

definition size_nn :: "bool \<Rightarrow> (nat list, 'f) nn" where
  "size_nn training =
     \<lparr>Conv2d = conv2d_size,
      BatchNorm2d = batchnorm2d_size training,
      ReLU = relu_size,
      AvgPool2d = avgpool2d_size,
      Linear = linear_size,
      iadd = iadd_size,
      view_rows = view_rows_size,
      truediv = (\<lambda>x t. x)\<rparr>"

text \<open>On sizes, \<open>torch.randn(k, num_ops)\<close> is \<open>[k, num_ops]\<close>, and scaling, moving to the
  device and \<open>gumbel_like\<close> keep the size; the generator is not represented.\<close>

definition size_sampler :: "(nat list, unit) sampler" where
  "size_sampler =
     \<lparr>randn = (\<lambda>g k n. ([k, n], g)),
      as_parameter = (\<lambda>v. Inr v),
      gumbel_like = (\<lambda>g v. (v, g))\<rparr>"


section \<open>Dictionary lemmas\<close>

lemma map_of_setitem: "map_of (setitem d k v) = (map_of d)(k \<mapsto> v)"
  by (induction d) (auto simp: fun_eq_iff)

lemma keys_setitem: "set (map fst (setitem d k v)) = insert k (set (map fst d))"
proof (induction d)
  case Nil
  then show ?case by simp
next
  case (Cons p d)
  then show ?case by (cases p) (simp add: insert_commute)
qed

lemma setitem_fresh: "k \<notin> set (map fst d) \<Longrightarrow> setitem d k v = d @ [(k, v)]"
  by (induction d) auto

lemma distinct_setitem:
  "distinct (map fst d) \<Longrightarrow> distinct (map fst (setitem d k v))"
proof (induction d)
  case Nil
  then show ?case by simp
next
  case (Cons p d)
  obtain k' v' where p: "p = (k', v')" by (cases p)
  from Cons have fresh: "k' \<notin> set (map fst d)"
    and ih: "distinct (map fst (setitem d k v))"
    by (auto simp: p)
  show ?case
  proof (cases "k' = k")
    case True
    then show ?thesis using Cons.prems by (simp add: p)
  next
    case False
    have "k' \<notin> set (map fst (setitem d k v))"
      using fresh False unfolding keys_setitem by simp
    then show ?thesis using ih False by (simp add: p)
  qed
qed

lemma foldl_setitem_distinct:
  "distinct (map fst (acc @ xs)) \<Longrightarrow> foldl (\<lambda>m (k, v). setitem m k v) acc xs = acc @ xs"
proof (induction xs arbitrary: acc)
  case Nil
  then show ?case by simp
next
  case (Cons x xs)
  obtain k v where x: "x = (k, v)" by (cases x)
  from Cons.prems have fresh: "k \<notin> set (map fst acc)" by (auto simp: x)
  from Cons.prems have "distinct (map fst ((acc @ [(k, v)]) @ xs))" by (simp add: x)
  from Cons.IH [OF this] show ?case by (simp add: x setitem_fresh [OF fresh])
qed

lemma foldl_setitem_rename:
  "foldl (\<lambda>m (k, v). setitem m (f k) v) acc xs =
     foldl (\<lambda>m (k, v). setitem m k v) acc (map (\<lambda>(k, v). (f k, v)) xs)"
  by (induction xs arbitrary: acc) (auto split: prod.splits)

lemma modified_dict_inj:
  assumes "distinct (map fst d)"
    and "inj_on (drop n) {k \<in> set (map fst d). startswith k b}"
  shows "modified_dict n b d = map (\<lambda>(k, v). (drop n k, v)) (filter (\<lambda>(k, v). startswith k b) d)"
proof -
  let ?ys = "filter (\<lambda>(k, v). startswith k b) d"
  have keys: "map fst ?ys = filter (\<lambda>k. startswith k b) (map fst d)"
    by (induction d) auto
  have "distinct (map (drop n) (map fst ?ys))"
    unfolding keys using assms by (simp add: distinct_map)
  moreover have "map fst (map (\<lambda>(k, v). (drop n k, v)) ?ys) = map (drop n) (map fst ?ys)"
    by (induction d) auto
  ultimately have "distinct (map fst ([] @ map (\<lambda>(k, v). (drop n k, v)) ?ys))"
    by (simp only: append_Nil)
  then have "foldl (\<lambda>m (k, v). setitem m k v) [] (map (\<lambda>(k, v). (drop n k, v)) ?ys) =
      [] @ map (\<lambda>(k, v). (drop n k, v)) ?ys"
    by (rule foldl_setitem_distinct)
  moreover have "modified_dict n b d =
      foldl (\<lambda>m (k, v). setitem m k v) [] (map (\<lambda>(k, v). (drop n k, v)) ?ys)"
    unfolding modified_dict_def by (rule foldl_setitem_rename)
  ultimately show ?thesis by (simp only: append_Nil)
qed

lemma map_of_foldl_setitem:
  "distinct (map fst m) \<Longrightarrow>
   map_of (foldl (\<lambda>d (k, v). setitem d k v) d m) = map_of d ++ map_of m"
proof (induction m arbitrary: d)
  case Nil
  then show ?case by simp
next
  case (Cons x m)
  obtain k v where x: "x = (k, v)" by (cases x)
  from Cons.prems have fresh: "map_of m k = None" and dist: "distinct (map fst m)"
    by (auto simp: x map_of_eq_None_iff)
  have "foldl (\<lambda>d (k, v). setitem d k v) d (x # m) =
      foldl (\<lambda>d (k, v). setitem d k v) (setitem d k v) m"
    by (simp add: x)
  then have "map_of (foldl (\<lambda>d (k, v). setitem d k v) d (x # m)) =
      map_of (setitem d k v) ++ map_of m"
    by (simp only: Cons.IH [OF dist])
  also have "\<dots> = (map_of d)(k \<mapsto> v) ++ map_of m"
    by (simp only: map_of_setitem)
  also have "\<dots> = map_of d ++ map_of (x # m)"
  proof (rule ext)
    fix a
    show "((map_of d)(k \<mapsto> v) ++ map_of m) a = (map_of d ++ map_of (x # m)) a"
      using fresh by (cases "a = k") (simp_all add: x map_add_def split: option.splits)
  qed
  finally show ?case .
qed

lemma distinct_foldl_setitem:
  "distinct (map fst acc) \<Longrightarrow> distinct (map fst (foldl (\<lambda>m (k, v). setitem m (f k) v) acc xs))"
  by (induction xs arbitrary: acc) (auto simp: distinct_setitem split: prod.splits)

lemma distinct_modified_dict: "distinct (map fst (modified_dict n b d))"
  unfolding modified_dict_def by (rule distinct_foldl_setitem) simp

lemma map_of_dict_update:
  "map_of (dict_update d (modified_dict n b d')) = map_of d ++ map_of (modified_dict n b d')"
  unfolding dict_update_def by (rule map_of_foldl_setitem) (rule distinct_modified_dict)

lemma block_name_length:
  "b \<in> set block_names \<Longrightarrow> (if b = ''fc'' then 3 else 7) = length b + 1"
  by (auto simp: block_names_def)

lemma load_block_unfold:
  "load_block T block_name n w =
     (let path = saved_model_name (weight_root (self w)) (model_name (self w)) n;
          w1 = w\<lparr>reads := reads w @ [path]\<rparr>
      in case torch_files T path of
           None \<Rightarrow> (Some FileNotFoundError, w1)
         | Some model_dict \<Rightarrow>
             (case getattr (self w) block_name of
                None \<Rightarrow> (Some AttributeError, w1)
              | Some m \<Rightarrow>
                  (fst (load_state_dict_module (torch_copy T) m (rename_block block_name model_dict)),
                   w1\<lparr>self := put_module (self w) block_name
                     (snd (load_state_dict_module (torch_copy T) m
                        (rename_block block_name model_dict)))\<rparr>)))"
  by (simp add: load_block_def torch_load_def Let_def split: option.splits prod.splits)

lemma getattr_block:
  "b \<in> set block_names \<Longrightarrow> \<exists>m. getattr st b = Some m"
  by (auto simp: block_names_def getattr_def)

section \<open>C5: the renaming step\<close>

text \<open>
  Claim C5, as amended. Let \<open>B\<close> be one of the four block names and let the checkpoint
  dictionary hold no two keys starting with \<open>B\<close> that agree after their first
  \<open>len(B) + 1\<close> characters (as when every such key starts with \<open>B.\<close>). Then the number
  of characters dropped (3 for \<open>fc\<close>, 7 otherwise) is \<open>len(B) + 1\<close>; the renamed
  dictionary consists of exactly the entries whose key starts with \<open>B\<close>, in their order,
  each under its key without the first \<open>len(B) + 1\<close> characters and with its value
  unchanged; the renamed entries are merged into the checkpoint dictionary, where they take
  precedence; and the loop body shared by the three loaders loads the merged dictionary
  into the sub-block \<open>B\<close>.
\<close>

theorem renamed_entries_merged:
  assumes "block_name \<in> set block_names"
    and "distinct (map fst model_dict)"
    and "inj_on (drop (length block_name + 1))
           {k \<in> set (map fst model_dict). startswith k block_name}"
    and "torch_files T (saved_model_name (weight_root (self w)) (model_name (self w)) n)
           = Some model_dict"
  shows "(if block_name = ''fc'' then 3 else 7) = length block_name + 1 \<and>
    modified_dict (length block_name + 1) block_name model_dict =
      map (\<lambda>(k, v). (drop (length block_name + 1) k, v))
        (filter (\<lambda>(k, v). startswith k block_name) model_dict) \<and>
    rename_block block_name model_dict =
      dict_update model_dict (modified_dict (length block_name + 1) block_name model_dict) \<and>
    map_of (rename_block block_name model_dict) =
      map_of model_dict ++ map_of (modified_dict (length block_name + 1) block_name model_dict) \<and>
    (\<exists>m. getattr (self w) block_name = Some m \<and>
      snd (load_block T block_name n w) =
        w\<lparr>reads := reads w @ [saved_model_name (weight_root (self w)) (model_name (self w)) n],
          self := put_module (self w) block_name
                    (loaded (torch_copy T) [] (rename_block block_name model_dict) m)\<rparr>)"
proof -
  have len: "(if block_name = ''fc'' then 3 else 7) = length block_name + 1"
    using assms(1) by (rule block_name_length)
  have ren: "rename_block block_name model_dict =
      dict_update model_dict (modified_dict (length block_name + 1) block_name model_dict)"
    unfolding rename_block_def len [symmetric] by (simp split: if_splits)
  obtain m where m: "getattr (self w) block_name = Some m"
    using getattr_block [OF assms(1)] by blast
  have ld: "snd (load_block T block_name n w) =
        w\<lparr>reads := reads w @ [saved_model_name (weight_root (self w)) (model_name (self w)) n],
          self := put_module (self w) block_name
                    (loaded (torch_copy T) [] (rename_block block_name model_dict) m)\<rparr>"
    by (simp add: load_block_unfold assms(4) m load_state_dict_module_def)
  have md: "modified_dict (length block_name + 1) block_name model_dict =
      map (\<lambda>(k, v). (drop (length block_name + 1) k, v))
        (filter (\<lambda>(k, v). startswith k block_name) model_dict)"
    using assms(2,3) by (rule modified_dict_inj)
  have mo: "map_of (rename_block block_name model_dict) =
      map_of model_dict ++ map_of (modified_dict (length block_name + 1) block_name model_dict)"
    unfolding ren by (rule map_of_dict_update)
  from len md ren mo m ld show ?thesis
    by - (intro conjI exI [of _ m]; assumption)
qed

text \<open>
  Without the condition on the keys the claim fails: of two entries \<open>fc.a\<close> and
  \<open>fc_a\<close> the comprehension keeps the value of the second under the key \<open>a\<close>, so the
  first entry is not stored with its value.
\<close>

theorem renamed_entries_counterexample:
  "(''fc.a'', 1::nat) \<in> set [(''fc.a'', 1), (''fc_a'', 2)] \<and> startswith ''fc.a'' ''fc'' \<and>
   (drop 3 ''fc.a'', 1::nat) \<notin> set (modified_dict 3 ''fc'' [(''fc.a'', 1), (''fc_a'', 2)])"
  by (simp add: startswith_def modified_dict_def)

lemma ex_paths:
  "saved_model_name (Some ''w'') ''wide_resnet'' 350 = ''w/wide_resnet_cross_entropy_350.model''"
  "saved_model_name (Some ''w'') ''wide_resnet'' 1 = ''w/wide_resnet_cross_entropy_1.model''"
  "saved_model_name (Some ''w'') ''wide_resnet'' 2 = ''w/wide_resnet_cross_entropy_2.model''"
  "saved_model_name (Some ''w'') ''wide_resnet'' 3 = ''w/wide_resnet_cross_entropy_3.model''"
  "saved_model_name (Some ''w'') ''wide_resnet'' 4 = ''w/wide_resnet_cross_entropy_4.model''"
  by (simp_all add: saved_model_name_def str_root_def str_int_def str_nat.simps digit_def)

theorem renamed_entries_merged_witness:
  "distinct (map fst (ex_checkpoint 2)) \<and>
   modified_dict 3 ''fc'' (ex_checkpoint 2) = [(''weight'', (640, 25)), (''bias'', (10, 26))] \<and>
   map_of (rename_block ''fc'' (ex_checkpoint 2)) ''weight'' = Some (640, 25) \<and>
   fc (self (snd (load_block ex_torch ''fc'' 2 ex_world))) =
     [(''weight'', (640, 25)), (''bias'', (10, 26))]"
proof -
  have h1: "''fc'' \<in> set block_names"
    by (simp add: block_names_def)
  have h2: "distinct (map fst (ex_checkpoint 2))"
    by (simp add: ex_checkpoint_def)
  have "distinct (map (drop (length ''fc'' + 1))
      (filter (\<lambda>k. startswith k ''fc'') (map fst (ex_checkpoint 2))))"
    by (simp add: ex_checkpoint_def startswith_def)
  then have "inj_on (drop (length ''fc'' + 1))
      (set (filter (\<lambda>k. startswith k ''fc'') (map fst (ex_checkpoint 2))))"
    by (simp only: distinct_map)
  then have h3: "inj_on (drop (length ''fc'' + 1))
      {k \<in> set (map fst (ex_checkpoint 2)). startswith k ''fc''}"
    by (simp only: set_filter)
  have h4: "torch_files ex_torch
      (saved_model_name (weight_root (self ex_world)) (model_name (self ex_world)) 2)
      = Some (ex_checkpoint 2)"
    by (simp add: ex_world_def ex_model_def ex_paths ex_torch_def ex_files_def)
  have l3: "length ''fc'' + 1 = 3"
    by simp
  note th = renamed_entries_merged [OF h1 h2 h3 h4, unfolded l3]
  from th have "modified_dict 3 ''fc'' (ex_checkpoint 2) =
      map (\<lambda>(k, v). (drop 3 k, v)) (filter (\<lambda>(k, v). startswith k ''fc'') (ex_checkpoint 2))"
    by (elim conjE)
  also have "\<dots> = [(''weight'', (640, 25)), (''bias'', (10, 26))]"
    by (simp add: ex_checkpoint_def startswith_def)
  finally have md: "modified_dict 3 ''fc'' (ex_checkpoint 2) =
      [(''weight'', (640, 25)), (''bias'', (10, 26))]" .
  from th have "map_of (rename_block ''fc'' (ex_checkpoint 2)) =
      map_of (ex_checkpoint 2) ++ map_of (modified_dict 3 ''fc'' (ex_checkpoint 2))"
    by (elim conjE)
  then have mo: "map_of (rename_block ''fc'' (ex_checkpoint 2)) ''weight'' = Some (640, 25)"
    by (simp add: md map_add_def)
  from th obtain m where m: "getattr (self ex_world) ''fc'' = Some m"
    and sn: "snd (load_block ex_torch ''fc'' 2 ex_world) =
        ex_world\<lparr>reads := reads ex_world @
            [saved_model_name (weight_root (self ex_world)) (model_name (self ex_world)) 2],
          self := put_module (self ex_world) ''fc''
                    (loaded (torch_copy ex_torch) [] (rename_block ''fc'' (ex_checkpoint 2)) m)\<rparr>"
    by (elim conjE exE)
  from m have m': "m = [(''weight'', (640, 0)), (''bias'', (10, 0))]"
    by (simp add: getattr_def ex_world_def ex_model_def)
  have "rename_block ''fc'' (ex_checkpoint 2) =
      dict_update (ex_checkpoint 2) [(''weight'', (640, 25)), (''bias'', (10, 26))]"
    by (simp add: rename_block_def md)
  then have "loaded (torch_copy ex_torch) [] (rename_block ''fc'' (ex_checkpoint 2)) m =
      [(''weight'', (640, 25)), (''bias'', (10, 26))]"
    by (simp add: m' loaded_def dict_update_def ex_checkpoint_def ex_torch_def)
  then have ld: "fc (self (snd (load_block ex_torch ''fc'' 2 ex_world))) =
     [(''weight'', (640, 25)), (''bias'', (10, 26))]"
    by (simp add: sn put_module_def)
  from h2 md mo ld show ?thesis by simp
qed

section \<open>What a block load leaves alone\<close>

lemma put_module_attributes:
  "weight_root (put_module st b m) = weight_root st"
  "model_name (put_module st b m) = model_name st"
  "alphas (put_module st b m) = alphas st"
  "gumbel (put_module st b m) = gumbel st"
  "ops (put_module st b m) = ops st"
  "tau (put_module st b m) = tau st"
  "temp (put_module st b m) = temp st"
  by (simp_all add: put_module_def)

lemma getattr_put_module:
  "getattr (put_module st b m) b' =
     (if b' = b \<and> getattr st b \<noteq> None then Some m else getattr st b')"
  by (simp add: put_module_def getattr_def)

lemma load_block_self:
  "self (snd (load_block T block_name n w)) = self w \<or>
   (\<exists>m. self (snd (load_block T block_name n w)) = put_module (self w) block_name m)"
proof (cases "torch_files T (saved_model_name (weight_root (self w)) (model_name (self w)) n)")
  case None
  then show ?thesis by (simp add: load_block_unfold Let_def)
next
  case found: (Some d)
  show ?thesis
  proof (cases "getattr (self w) block_name")
    case None
    then show ?thesis using found by (simp add: load_block_unfold Let_def)
  next
    case (Some m)
    then have "self (snd (load_block T block_name n w)) = put_module (self w) block_name
        (snd (load_state_dict_module (torch_copy T) m (rename_block block_name d)))"
      using found by (simp add: load_block_unfold Let_def)
    then show ?thesis by blast
  qed
qed

lemma load_block_reads:
  "reads (snd (load_block T block_name n w)) =
     reads w @ [saved_model_name (weight_root (self w)) (model_name (self w)) n]"
  by (simp add: load_block_unfold Let_def split: option.splits)

text \<open>
  Claim C8. The round of the loop for a block name \<open>B\<close>, which
  \<open>load_combination_weight\<close> and \<open>load_gumbel_weight\<close> share, changes no child module
  other than \<open>B\<close>: \<open>conv1\<close> and \<open>bn1\<close> of the stem, the other three named blocks, the
  architecture parameters \<open>alphas\<close> and the stored noise \<open>gumbel\<close> are as before, whether
  the round ends normally or raises.
\<close>

theorem load_block_frame:
  assumes "block_name \<in> set block_names"
  shows "conv1 (self (snd (load_block T block_name n w))) = conv1 (self w) \<and>
    bn1 (self (snd (load_block T block_name n w))) = bn1 (self w) \<and>
    alphas (self (snd (load_block T block_name n w))) = alphas (self w) \<and>
    gumbel (self (snd (load_block T block_name n w))) = gumbel (self w) \<and>
    (\<forall>b \<in> set block_names. b \<noteq> block_name \<longrightarrow>
       getattr (self (snd (load_block T block_name n w))) b = getattr (self w) b)"
proof -
  have stem: "conv1 (put_module (self w) block_name m) = conv1 (self w)"
    "bn1 (put_module (self w) block_name m) = bn1 (self w)" for m
    using assms by (auto simp: put_module_def block_names_def)
  from load_block_self [of T block_name n w] show ?thesis
  proof
    assume "self (snd (load_block T block_name n w)) = self w"
    then show ?thesis by simp
  next
    assume "\<exists>m. self (snd (load_block T block_name n w)) = put_module (self w) block_name m"
    then obtain m where
      m: "self (snd (load_block T block_name n w)) = put_module (self w) block_name m" ..
    show ?thesis
      unfolding m by (simp add: stem put_module_attributes getattr_put_module)
  qed
qed

theorem load_block_frame_witness:
  "conv1 (self (snd (load_block ex_torch ''layer2'' 2 ex_world))) = [(''weight'', (432, 0))] \<and>
   getattr (self (snd (load_block ex_torch ''layer2'' 2 ex_world))) ''fc'' =
     Some [(''weight'', (640, 0)), (''bias'', (10, 0))] \<and>
   gumbel (self (snd (load_block ex_torch ''layer2'' 2 ex_world))) = (1400, 8)"
proof -
  have h: "''layer2'' \<in> set block_names"
    by (simp add: block_names_def)
  have fc: "''fc'' \<in> set block_names" "''fc'' \<noteq> ''layer2''"
    by (simp_all add: block_names_def)
  note th = load_block_frame [OF h, of ex_torch 2 ex_world]
  from th have c: "conv1 (self (snd (load_block ex_torch ''layer2'' 2 ex_world))) =
      conv1 (self ex_world)"
    by (elim conjE)
  from th have g: "gumbel (self (snd (load_block ex_torch ''layer2'' 2 ex_world))) =
      gumbel (self ex_world)"
    by (elim conjE)
  from th have "\<forall>b \<in> set block_names. b \<noteq> ''layer2'' \<longrightarrow>
      getattr (self (snd (load_block ex_torch ''layer2'' 2 ex_world))) b =
      getattr (self ex_world) b"
    by (elim conjE)
  from bspec [OF this fc(1)] fc(2)
  have f: "getattr (self (snd (load_block ex_torch ''layer2'' 2 ex_world))) ''fc'' =
      getattr (self ex_world) ''fc''"
    by (rule mp)
  show ?thesis
    unfolding c g f by (simp add: ex_world_def ex_model_def getattr_def)
qed

section \<open>The paths that the loaders open\<close>

lemma load_state_dict_attributes:
  "weight_root (snd (load_state_dict cp st d strict)) = weight_root st"
  "model_name (snd (load_state_dict cp st d strict)) = model_name st"
  "alphas (snd (load_state_dict cp st d strict)) = alphas st"
  "gumbel (snd (load_state_dict cp st d strict)) = gumbel st"
  "ops (snd (load_state_dict cp st d strict)) = ops st"
  by (simp_all add: load_state_dict_def Let_def)

lemma load_block_attributes:
  "weight_root (self (snd (load_block T b n w))) = weight_root (self w)"
  "model_name (self (snd (load_block T b n w))) = model_name (self w)"
  "alphas (self (snd (load_block T b n w))) = alphas (self w)"
  "gumbel (self (snd (load_block T b n w))) = gumbel (self w)"
  "ops (self (snd (load_block T b n w))) = ops (self w)"
  using load_block_self [of T b n w] by (auto simp: put_module_attributes)

lemma load_blocks_reads:
  "\<exists>ps. reads (snd (load_blocks T number bs w)) = reads w @ ps \<and> named w ps"
proof (induction bs arbitrary: w)
  case Nil
  show ?case by (simp add: named_def)
next
  case (Cons b bs)
  show ?case
  proof (cases "list_index block_names b")
    case (Inl e)
    then show ?thesis by (simp add: named_def)
  next
    case idx: (Inr idx)
    show ?thesis
    proof (cases "number w idx")
      case (Inl e)
      then show ?thesis using idx by (simp add: named_def)
    next
      case n: (Inr n)
      obtain err w1 where lb: "load_block T b n w = (err, w1)"
        by (cases "load_block T b n w")
      let ?p = "saved_model_name (weight_root (self w)) (model_name (self w)) n"
      have r1: "reads w1 = reads w @ [?p]"
        using load_block_reads [of T b n w] by (simp add: lb)
      have at: "weight_root (self w1) = weight_root (self w)"
        "model_name (self w1) = model_name (self w)"
        using load_block_attributes [of T b n w] by (simp_all add: lb)
      show ?thesis
      proof (cases err)
        case (Some e)
        then have "snd (load_blocks T number (b # bs) w) = w1"
          using idx n lb by simp
        moreover have "named w [?p]"
          unfolding named_def by (simp del: saved_model_name_def) (rule exI, rule refl)
        ultimately show ?thesis using r1 by blast
      next
        case None
        then have eq: "load_blocks T number (b # bs) w = load_blocks T number bs w1"
          using idx n lb by simp
        from Cons.IH [of w1] obtain ps where
          ps: "reads (snd (load_blocks T number bs w1)) = reads w1 @ ps" "named w1 ps"
          by blast
        from ps(2) have "named w (?p # ps)"
          unfolding named_def at by simp (rule exI, rule refl)
        moreover have "reads (snd (load_blocks T number (b # bs) w)) = reads w @ ?p # ps"
          unfolding eq ps(1) r1 by simp
        ultimately show ?thesis by blast
      qed
    qed
  qed
qed

text \<open>The world after the whole-model load and the loop, as the three loaders build it.\<close>

lemma initial_then_blocks_reads:
  fixes w :: "('v, 'f) world"
  assumes w': "w' = (case torch_files T p0 of
       None \<Rightarrow> w\<lparr>reads := reads w @ [p0]\<rparr>
     | Some d \<Rightarrow>
         (case fst (load_state_dict (torch_copy T) (self w) d strict) of
            Some e \<Rightarrow> w\<lparr>reads := reads w @ [p0],
                         self := snd (load_state_dict (torch_copy T) (self w) d strict)\<rparr>
          | None \<Rightarrow> snd (load_blocks T number block_names
                (w\<lparr>reads := reads w @ [p0],
                   self := snd (load_state_dict (torch_copy T) (self w) d strict)\<rparr>))))"
  shows "\<exists>ps. reads w' = reads w @ p0 # ps \<and> named w ps"
proof (cases "torch_files T p0")
  case None
  then show ?thesis by (simp add: w' named_def)
next
  case d: (Some d)
  let ?st = "snd (load_state_dict (torch_copy T) (self w) d strict)"
  let ?w1 = "w\<lparr>reads := reads w @ [p0], self := ?st\<rparr>"
  show ?thesis
  proof (cases "fst (load_state_dict (torch_copy T) (self w) d strict)")
    case (Some e)
    then show ?thesis using d by (simp add: w' named_def)
  next
    case None
    then have eq: "w' = snd (load_blocks T number block_names ?w1)"
      using d by (simp add: w')
    from load_blocks_reads [of T number block_names ?w1] obtain ps where
      ps: "reads w' = reads ?w1 @ ps" "named ?w1 ps"
      unfolding eq by blast
    from ps(2) have "named w ps"
      by (simp add: named_def load_state_dict_attributes)
    with ps(1) show ?thesis by simp
  qed
qed

lemma snd_load_combination:
  "snd (load_combination T index w) =
     (case torch_files T (saved_model_name (weight_root (self w)) (model_name (self w)) 350) of
       None \<Rightarrow> w\<lparr>reads := reads w @ [saved_model_name (weight_root (self w)) (model_name (self w)) 350]\<rparr>
     | Some d \<Rightarrow>
         (case fst (load_state_dict (torch_copy T) (self w) d False) of
            Some e \<Rightarrow> w\<lparr>reads := reads w @ [saved_model_name (weight_root (self w)) (model_name (self w)) 350],
                         self := snd (load_state_dict (torch_copy T) (self w) d False)\<rparr>
          | None \<Rightarrow> snd (load_blocks T (ops_number index) block_names
                (w\<lparr>reads := reads w @ [saved_model_name (weight_root (self w)) (model_name (self w)) 350],
                   self := snd (load_state_dict (torch_copy T) (self w) d False)\<rparr>))))"
  by (simp add: load_combination_def torch_load_def split: option.splits prod.splits)

lemma snd_load_combination_weight:
  "snd (load_combination_weight T combination weight_folder model_name_arg w) =
     (let w0 = w\<lparr>self := (self w)\<lparr>weight_root := Some weight_folder\<rparr>\<rparr>;
          p0 = saved_model_name (weight_root (self w0)) (model_name (self w0)) 350
      in case torch_files T p0 of
       None \<Rightarrow> w0\<lparr>reads := reads w0 @ [p0]\<rparr>
     | Some d \<Rightarrow>
         (case fst (load_state_dict (torch_copy T) (self w0) d False) of
            Some e \<Rightarrow> w0\<lparr>reads := reads w0 @ [p0],
                         self := snd (load_state_dict (torch_copy T) (self w0) d False)\<rparr>
          | None \<Rightarrow> snd (load_blocks T (first_number combination) block_names
                (w0\<lparr>reads := reads w0 @ [p0],
                   self := snd (load_state_dict (torch_copy T) (self w0) d False)\<rparr>))))"
  by (simp add: load_combination_weight_def torch_load_def Let_def
      split: option.splits prod.splits)

lemma snd_load_gumbel_weight:
  "snd (load_gumbel_weight T w) =
     (case getitem (torch_argmax T (arch_weights T (self w) False False) (- 1)) 0 of
        Inl e \<Rightarrow> w
      | Inr c \<Rightarrow>
         (case torch_files T (saved_model_name (weight_root (self w)) (model_name (self w)) (c + 1)) of
           None \<Rightarrow> w\<lparr>reads := reads w @
               [saved_model_name (weight_root (self w)) (model_name (self w)) (c + 1)]\<rparr>
         | Some d \<Rightarrow>
             (case fst (load_state_dict (torch_copy T) (self w) d True) of
                Some e \<Rightarrow> w\<lparr>reads := reads w @
                      [saved_model_name (weight_root (self w)) (model_name (self w)) (c + 1)],
                    self := snd (load_state_dict (torch_copy T) (self w) d True)\<rparr>
              | None \<Rightarrow> snd (load_blocks T
                    (nth_number (torch_argmax T (arch_weights T (self w) False False) (- 1)))
                    block_names
                    (w\<lparr>reads := reads w @
                        [saved_model_name (weight_root (self w)) (model_name (self w)) (c + 1)],
                       self := snd (load_state_dict (torch_copy T) (self w) d True)\<rparr>)))))"
  by (simp add: load_gumbel_weight_def torch_load_def Let_def
      split: option.splits prod.splits sum.splits)

lemma wide_resnet_name:
  "saved_model_name root ''wide_resnet'' n =
     str_root root @ ''/wide_resnet_cross_entropy_'' @ str_int n @ ''.model''"
  by (simp add: saved_model_name_def)

lemma str_int_350: "str_int 350 = ''350''"
  by (simp add: str_int_def str_nat.simps digit_def)

lemma named_wide_resnet:
  assumes "model_name (self w) = ''wide_resnet''" and "named w ps"
  shows "\<forall>p \<in> set ps. \<exists>n. p =
    str_root (weight_root (self w)) @ ''/wide_resnet_cross_entropy_'' @ str_int n @ ''.model''"
  using assms(2) unfolding named_def assms(1) wide_resnet_name .

text \<open>
  Claim C9. With \<open>self.model_name\<close> as the constructor sets it, every path that
  \<open>load_combination\<close>, \<open>load_combination_weight\<close> and \<open>load_gumbel_weight\<close> hand to
  \<open>torch.load\<close> is \<open>'{weight_root}/wide_resnet_cross_entropy_{n}.model'\<close> for an integer
  \<open>n\<close>, where \<open>weight_root\<close> is the attribute (for \<open>load_combination_weight\<close> the
  argument \<open>weight_folder\<close> it is set to); and the first file that \<open>load_combination\<close>
  and \<open>load_combination_weight\<close> open, for the whole-model load, has \<open>n = 350\<close>.
\<close>

theorem checkpoint_file_names:
  assumes "model_name (self w) = ''wide_resnet''"
  shows "(\<exists>ps. reads (snd (load_combination T index w)) =
        reads w @ (str_root (weight_root (self w)) @ ''/wide_resnet_cross_entropy_350.model'') # ps \<and>
      (\<forall>p \<in> set ps. \<exists>n. p = str_root (weight_root (self w)) @
          ''/wide_resnet_cross_entropy_'' @ str_int n @ ''.model'')) \<and>
    (\<exists>ps. reads (snd (load_combination_weight T combination weight_folder model_name_arg w)) =
        reads w @ (weight_folder @ ''/wide_resnet_cross_entropy_350.model'') # ps \<and>
      (\<forall>p \<in> set ps. \<exists>n. p = weight_folder @
          ''/wide_resnet_cross_entropy_'' @ str_int n @ ''.model'')) \<and>
    (\<exists>ps. reads (snd (load_gumbel_weight T w)) = reads w @ ps \<and>
      (\<forall>p \<in> set ps. \<exists>n. p = str_root (weight_root (self w)) @
          ''/wide_resnet_cross_entropy_'' @ str_int n @ ''.model''))"
proof (intro conjI)
  have p350: "saved_model_name root ''wide_resnet'' 350 =
      str_root root @ ''/wide_resnet_cross_entropy_350.model''" for root
    by (simp add: wide_resnet_name str_int_350)
  from initial_then_blocks_reads [OF snd_load_combination] obtain ps where
    "reads (snd (load_combination T index w)) =
       reads w @ saved_model_name (weight_root (self w)) (model_name (self w)) 350 # ps"
    and "named w ps"
    by blast
  then show "\<exists>ps. reads (snd (load_combination T index w)) =
        reads w @ (str_root (weight_root (self w)) @ ''/wide_resnet_cross_entropy_350.model'') # ps \<and>
      (\<forall>p \<in> set ps. \<exists>n. p = str_root (weight_root (self w)) @
          ''/wide_resnet_cross_entropy_'' @ str_int n @ ''.model'')"
    using named_wide_resnet [OF assms] unfolding assms p350 by blast
next
  let ?w0 = "w\<lparr>self := (self w)\<lparr>weight_root := Some weight_folder\<rparr>\<rparr>"
  have p350: "saved_model_name root ''wide_resnet'' 350 =
      str_root root @ ''/wide_resnet_cross_entropy_350.model''" for root
    by (simp add: wide_resnet_name str_int_350)
  have name0: "model_name (self ?w0) = ''wide_resnet''"
    using assms by simp
  have "snd (load_combination_weight T combination weight_folder model_name_arg w) =
     (case torch_files T (saved_model_name (weight_root (self ?w0)) (model_name (self ?w0)) 350) of
       None \<Rightarrow> ?w0\<lparr>reads := reads ?w0 @
           [saved_model_name (weight_root (self ?w0)) (model_name (self ?w0)) 350]\<rparr>
     | Some d \<Rightarrow>
         (case fst (load_state_dict (torch_copy T) (self ?w0) d False) of
            Some e \<Rightarrow> ?w0\<lparr>reads := reads ?w0 @
                  [saved_model_name (weight_root (self ?w0)) (model_name (self ?w0)) 350],
                self := snd (load_state_dict (torch_copy T) (self ?w0) d False)\<rparr>
          | None \<Rightarrow> snd (load_blocks T (first_number combination) block_names
                (?w0\<lparr>reads := reads ?w0 @
                    [saved_model_name (weight_root (self ?w0)) (model_name (self ?w0)) 350],
                   self := snd (load_state_dict (torch_copy T) (self ?w0) d False)\<rparr>))))"
    unfolding snd_load_combination_weight Let_def ..
  from initial_then_blocks_reads [OF this] obtain ps where
    r: "reads (snd (load_combination_weight T combination weight_folder model_name_arg w)) =
       reads ?w0 @ saved_model_name (weight_root (self ?w0)) (model_name (self ?w0)) 350 # ps"
    and n: "named ?w0 ps"
    by blast
  from named_wide_resnet [OF name0 n]
  have "\<forall>p \<in> set ps. \<exists>n. p = weight_folder @
          ''/wide_resnet_cross_entropy_'' @ str_int n @ ''.model''"
    by (simp add: str_root_def)
  moreover from r have
    "reads (snd (load_combination_weight T combination weight_folder model_name_arg w)) =
       reads w @ (weight_folder @ ''/wide_resnet_cross_entropy_350.model'') # ps"
    unfolding name0 p350 by (simp add: str_root_def)
  ultimately show "\<exists>ps. reads (snd (load_combination_weight T combination weight_folder model_name_arg w)) =
        reads w @ (weight_folder @ ''/wide_resnet_cross_entropy_350.model'') # ps \<and>
      (\<forall>p \<in> set ps. \<exists>n. p = weight_folder @
          ''/wide_resnet_cross_entropy_'' @ str_int n @ ''.model'')"
    by blast
next
  let ?comb = "torch_argmax T (arch_weights T (self w) False False) (- 1)"
  show "\<exists>ps. reads (snd (load_gumbel_weight T w)) = reads w @ ps \<and>
      (\<forall>p \<in> set ps. \<exists>n. p = str_root (weight_root (self w)) @
          ''/wide_resnet_cross_entropy_'' @ str_int n @ ''.model'')"
  proof (cases "getitem ?comb 0")
    case (Inl e)
    then have "reads (snd (load_gumbel_weight T w)) = reads w @ []"
      by (simp add: snd_load_gumbel_weight)
    then show ?thesis by (intro exI [of _ "[]"]) simp
  next
    case (Inr c)
    let ?p0 = "saved_model_name (weight_root (self w)) (model_name (self w)) (c + 1)"
    have "snd (load_gumbel_weight T w) =
       (case torch_files T ?p0 of
           None \<Rightarrow> w\<lparr>reads := reads w @ [?p0]\<rparr>
         | Some d \<Rightarrow>
             (case fst (load_state_dict (torch_copy T) (self w) d True) of
                Some e \<Rightarrow> w\<lparr>reads := reads w @ [?p0],
                    self := snd (load_state_dict (torch_copy T) (self w) d True)\<rparr>
              | None \<Rightarrow> snd (load_blocks T (nth_number ?comb) block_names
                    (w\<lparr>reads := reads w @ [?p0],
                       self := snd (load_state_dict (torch_copy T) (self w) d True)\<rparr>))))"
      using Inr by (simp add: snd_load_gumbel_weight)
    from initial_then_blocks_reads [OF this] obtain ps where
      r: "reads (snd (load_gumbel_weight T w)) = reads w @ ?p0 # ps" and n: "named w ps"
      by blast
    have "named w (?p0 # ps)"
      using n unfolding named_def by simp (rule exI, rule refl)
    from named_wide_resnet [OF assms this] r show ?thesis
      by blast
  qed
qed

theorem checkpoint_file_names_witness:
  "model_name (self ex_world) = ''wide_resnet'' \<and>
   (\<exists>ps. reads (snd (load_combination ex_torch [0, 1, 2, 3] ex_world)) =
      ''w/wide_resnet_cross_entropy_350.model'' # ps \<and>
      (\<forall>p \<in> set ps. \<exists>n. p = ''w/wide_resnet_cross_entropy_'' @ str_int n @ ''.model''))"
proof -
  have h: "model_name (self ex_world) = ''wide_resnet''"
    by (simp add: ex_world_def ex_model_def)
  have e: "reads ex_world = []" "str_root (weight_root (self ex_world)) = ''w''"
    by (simp_all add: ex_world_def ex_model_def str_root_def)
  from checkpoint_file_names [OF h, of ex_torch "[0, 1, 2, 3]"]
  have "\<exists>ps. reads (snd (load_combination ex_torch [0, 1, 2, 3] ex_world)) =
        reads ex_world @ (str_root (weight_root (self ex_world)) @
          ''/wide_resnet_cross_entropy_350.model'') # ps \<and>
      (\<forall>p \<in> set ps. \<exists>n. p = str_root (weight_root (self ex_world)) @
          ''/wide_resnet_cross_entropy_'' @ str_int n @ ''.model'')"
    by (rule conjunct1)
  then have "\<exists>ps. reads (snd (load_combination ex_torch [0, 1, 2, 3] ex_world)) =
      ''w/wide_resnet_cross_entropy_350.model'' # ps \<and>
      (\<forall>p \<in> set ps. \<exists>n. p = ''w/wide_resnet_cross_entropy_'' @ str_int n @ ''.model'')"
    unfolding e by simp
  with h show ?thesis ..
qed

section \<open>A loop in which every round succeeds\<close>

lemma load_block_ok:
  assumes "block_from_checkpoint T (self w) b n = Some m"
  shows "load_block T b n w =
    (None, w\<lparr>reads := reads w @ [saved_model_name (weight_root (self w)) (model_name (self w)) n],
              self := put_module (self w) b m\<rparr>)"
proof -
  let ?p = "saved_model_name (weight_root (self w)) (model_name (self w)) n"
  from assms obtain d where d: "torch_files T ?p = Some d"
    by (auto simp: block_from_checkpoint_def split: option.splits)
  from assms d obtain m0 where m0: "getattr (self w) b = Some m0"
    by (auto simp: block_from_checkpoint_def split: option.splits)
  from assms d m0 have ok: "mismatched (torch_copy T) [] (rename_block b d) m0 = []"
    and m: "m = loaded (torch_copy T) [] (rename_block b d) m0"
    by (auto simp: block_from_checkpoint_def split: if_splits)
  show ?thesis
    by (simp add: load_block_unfold Let_def d m0 ok m load_state_dict_module_def)
qed

lemma load_blocks_step:
  assumes "list_index block_names b = Inr idx"
    and "number w idx = Inr n"
    and "block_from_checkpoint T (self w) b n = Some m"
  shows "load_blocks T number (b # bs) w =
    load_blocks T number bs
      (w\<lparr>reads := reads w @ [saved_model_name (weight_root (self w)) (model_name (self w)) n],
         self := put_module (self w) b m\<rparr>)"
  by (simp add: assms(1,2) load_block_ok [OF assms(3)])

lemma block_from_checkpoint_put:
  "b' \<noteq> b \<Longrightarrow>
   block_from_checkpoint T (put_module st b' m) b n = block_from_checkpoint T st b n"
proof -
  assume "b' \<noteq> b"
  then have g: "getattr (put_module st b' m) b = getattr st b"
    by (auto simp: getattr_put_module)
  show ?thesis
    unfolding block_from_checkpoint_def put_module_attributes g ..
qed

lemma block_names_nth:
  "block_names ! 0 = ''layer1''" "block_names ! 1 = ''layer2''"
  "block_names ! 2 = ''layer3''" "block_names ! 3 = ''fc''"
  by (simp_all add: block_names_def)

lemma block_positions:
  "list_index block_names ''layer1'' = Inr 0"
  "list_index block_names ''layer2'' = Inr 1"
  "list_index block_names ''layer3'' = Inr 2"
  "list_index block_names ''fc'' = Inr 3"
  by (simp_all add: block_names_def)

lemma put_module_blocks:
  "put_module (put_module (put_module (put_module st ''layer1'' m1) ''layer2'' m2) ''layer3'' m3)
     ''fc'' m4 = st\<lparr>layer1 := m1, layer2 := m2, layer3 := m3, fc := m4\<rparr>"
  by (simp add: put_module_def)

lemma load_blocks_ok:
  assumes num: "\<And>w'. ops (self w') = ops (self w) \<Longrightarrow> \<forall>idx<4. number w' idx = Inr (n idx)"
    and blk: "\<forall>idx<4. block_from_checkpoint T (self w) (block_names ! idx) (n idx) = Some (m idx)"
  shows "load_blocks T number block_names w =
    (None, w\<lparr>reads := reads w @
        map (\<lambda>idx. saved_model_name (weight_root (self w)) (model_name (self w)) (n idx))
          [0, 1, 2, 3],
      self := (self w)\<lparr>layer1 := m 0, layer2 := m 1, layer3 := m 2, fc := m 3\<rparr>\<rparr>)"
proof -
  let ?p = "\<lambda>idx. saved_model_name (weight_root (self w)) (model_name (self w)) (n idx)"
  let ?s1 = "put_module (self w) ''layer1'' (m 0)"
  let ?s2 = "put_module ?s1 ''layer2'' (m 1)"
  let ?s3 = "put_module ?s2 ''layer3'' (m 2)"
  let ?s4 = "put_module ?s3 ''fc'' (m 3)"
  let ?w1 = "w\<lparr>reads := reads w @ [?p 0], self := ?s1\<rparr>"
  let ?w2 = "?w1\<lparr>reads := reads ?w1 @ [?p 1], self := ?s2\<rparr>"
  let ?w3 = "?w2\<lparr>reads := reads ?w2 @ [?p 2], self := ?s3\<rparr>"
  let ?w4 = "?w3\<lparr>reads := reads ?w3 @ [?p 3], self := ?s4\<rparr>"
  have b0: "block_from_checkpoint T (self w) ''layer1'' (n 0) = Some (m 0)"
    using blk [rule_format, of 0] block_names_nth(1) by simp
  have b1: "block_from_checkpoint T (self w) ''layer2'' (n 1) = Some (m 1)"
    using blk [rule_format, of 1] block_names_nth(2) by simp
  have b2: "block_from_checkpoint T (self w) ''layer3'' (n 2) = Some (m 2)"
    using blk [rule_format, of 2] block_names_nth(3) by simp
  have b3: "block_from_checkpoint T (self w) ''fc'' (n 3) = Some (m 3)"
    using blk [rule_format, of 3] block_names_nth(4) by simp
  have n0: "number w 0 = Inr (n 0)"
    using num [of w] by simp
  have n1: "number ?w1 1 = Inr (n 1)"
    using num [of ?w1] by (simp add: put_module_attributes)
  have n2: "number ?w2 2 = Inr (n 2)"
    using num [of ?w2] by (simp add: put_module_attributes)
  have n3: "number ?w3 3 = Inr (n 3)"
    using num [of ?w3] by (simp add: put_module_attributes)
  have c1: "block_from_checkpoint T (self ?w1) ''layer2'' (n 1) = Some (m 1)"
    using b1 by (simp add: block_from_checkpoint_put)
  have c2: "block_from_checkpoint T (self ?w2) ''layer3'' (n 2) = Some (m 2)"
    using b2 by (simp add: block_from_checkpoint_put)
  have c3: "block_from_checkpoint T (self ?w3) ''fc'' (n 3) = Some (m 3)"
    using b3 by (simp add: block_from_checkpoint_put)
  have "load_blocks T number block_names w =
      load_blocks T number [''layer2'', ''layer3'', ''fc''] ?w1"
    using load_blocks_step [where number = number and w = w, OF block_positions(1) n0 b0] by (simp add: block_names_def)
  also have "\<dots> = load_blocks T number [''layer3'', ''fc''] ?w2"
    using load_blocks_step [where number = number and w = "?w1", OF block_positions(2) n1 c1]
    by (simp add: put_module_attributes)
  also have "\<dots> = load_blocks T number [''fc''] ?w3"
    using load_blocks_step [where number = number and w = "?w2", OF block_positions(3) n2 c2]
    by (simp add: put_module_attributes)
  also have "\<dots> = load_blocks T number [] ?w4"
    using load_blocks_step [where number = number and w = "?w3", OF block_positions(4) n3 c3]
    by (simp add: put_module_attributes)
  also have "\<dots> = (None, ?w4)"
    by simp
  finally show ?thesis
    by (simp add: put_module_blocks)
qed

lemma getitem_nat: "i < length xs \<Longrightarrow> getitem xs (int i) = Inr (xs ! i)"
  by (simp add: getitem_def)

lemma gather_length: "gather xs is = Inr r \<Longrightarrow> length r = length is"
  by (induction "is" arbitrary: r) (auto split: sum.splits)

lemma gather_nth:
  "gather xs is = Inr r \<Longrightarrow> i < length is \<Longrightarrow> getitem xs (is ! i) = Inr (r ! i)"
proof (induction "is" arbitrary: r i)
  case Nil
  then show ?case by simp
next
  case (Cons j js)
  from Cons.prems(1) obtain x ys where x: "getitem xs j = Inr x"
    and ys: "gather xs js = Inr ys" and r: "r = x # ys"
    by (auto split: sum.splits)
  show ?case
  proof (cases i)
    case 0
    then show ?thesis by (simp add: x r)
  next
    case (Suc k)
    with Cons.prems(2) have "k < length js" by simp
    from Cons.IH [OF ys this] show ?thesis by (simp add: Suc r)
  qed
qed

lemma load_gumbel_weight_run:
  assumes "getitem (torch_argmax T (arch_weights T (self w) False False) (- 1)) 0 = Inr c"
    and "torch_files T (saved_model_name (weight_root (self w)) (model_name (self w)) (c + 1))
      = Some d0"
    and "load_state_dict (torch_copy T) (self w) d0 True = (None, st)"
    and "load_blocks T (nth_number (torch_argmax T (arch_weights T (self w) False False) (- 1)))
      block_names
      (w\<lparr>reads := reads w @
          [saved_model_name (weight_root (self w)) (model_name (self w)) (c + 1)],
         self := st\<rparr>) = (None, w2)"
  shows "load_gumbel_weight T w =
    (Inr (torch_argmax T (arch_weights T (self w) False False) (- 1)), w2)"
  by (simp add: load_gumbel_weight_def Let_def torch_load_def assms)

section \<open>C2: load_gumbel_weight\<close>

text \<open>
  Claim C2. \<open>load_gumbel_weight\<close> takes \<open>combination\<close> to be \<open>torch.argmax\<close> along the
  last dimension of \<open>arch_weights(cat=False)\<close>. When \<open>combination\<close> has an entry for each
  of the four blocks, the whole-model load from checkpoint \<open>combination[0] + 1\<close> succeeds and
  leaves the model \<open>st\<close>, and each block at position \<open>idx\<close> can be loaded from checkpoint
  \<open>combination[idx] + 1\<close>, then the method returns \<open>combination\<close>, every block at position
  \<open>idx\<close> is the one loaded from the checkpoint numbered \<open>combination[idx] + 1\<close>, and the
  rest of the model is as the whole-model load left it.
\<close>

theorem load_gumbel_weight_loads:
  assumes comb: "combination = torch_argmax T (arch_weights T (self w) False False) (- 1)"
    and len: "4 \<le> length combination"
    and file0: "torch_files T
        (saved_model_name (weight_root (self w)) (model_name (self w)) (combination ! 0 + 1)) = Some d0"
    and strict: "load_state_dict (torch_copy T) (self w) d0 True = (None, st)"
    and blocks: "\<forall>idx<4. block_from_checkpoint T st (block_names ! idx) (combination ! idx + 1)
        = Some (m idx)"
  shows "fst (load_gumbel_weight T w) = Inr combination \<and>
    (\<forall>idx<4. getattr (self (snd (load_gumbel_weight T w))) (block_names ! idx) = Some (m idx)) \<and>
    self (snd (load_gumbel_weight T w)) = st\<lparr>layer1 := m 0, layer2 := m 1, layer3 := m 2, fc := m 3\<rparr>"
proof -
  let ?name = "saved_model_name (weight_root (self w)) (model_name (self w))"
  let ?w1 = "w\<lparr>reads := reads w @ [?name (combination ! 0 + 1)], self := st\<rparr>"
  have st: "st = snd (load_state_dict (torch_copy T) (self w) d0 True)"
    by (simp add: strict)
  have g0: "getitem combination 0 = Inr (combination ! 0)"
    using len by (cases combination) (simp_all add: getitem_def)
  have num: "\<forall>idx<4. nth_number combination w' idx = Inr (combination ! idx + 1)" for w'
    using len by (simp add: nth_number_def getitem_nat)
  have blk: "\<forall>idx<4. block_from_checkpoint T (self ?w1) (block_names ! idx) (combination ! idx + 1)
      = Some (m idx)"
    using blocks by simp
  note loop = load_blocks_ok [where number = "nth_number combination" and w = "?w1"
      and n = "\<lambda>idx. combination ! idx + 1", OF num blk]
  have res: "load_gumbel_weight T w =
      (Inr combination,
       ?w1\<lparr>reads := reads ?w1 @ map (\<lambda>idx. saved_model_name (weight_root (self ?w1))
            (model_name (self ?w1)) (combination ! idx + 1)) [0, 1, 2, 3],
          self := (self ?w1)\<lparr>layer1 := m 0, layer2 := m 1, layer3 := m 2, fc := m 3\<rparr>\<rparr>)"
    using load_gumbel_weight_run [OF g0 [unfolded comb] file0 [unfolded comb] strict
        loop [unfolded comb]]
    unfolding comb [symmetric] .
  have 1: "fst (load_gumbel_weight T w) = Inr combination"
    by (simp add: res)
  have 3: "self (snd (load_gumbel_weight T w)) =
      st\<lparr>layer1 := m 0, layer2 := m 1, layer3 := m 2, fc := m 3\<rparr>"
    by (simp add: res)
  have 2: "\<forall>idx<4. getattr (self (snd (load_gumbel_weight T w))) (block_names ! idx) = Some (m idx)"
  proof (intro allI impI)
    fix idx :: nat
    assume "idx < 4"
    then consider "idx = 0" | "idx = 1" | "idx = 2" | "idx = 3"
      by linarith
    then show "getattr (self (snd (load_gumbel_weight T w))) (block_names ! idx) = Some (m idx)"
      unfolding 3
      by cases (simp_all add: block_names_def getattr_def)
  qed
  from 1 2 3 show ?thesis by (intro conjI)
qed

section \<open>Running the concrete instance\<close>

lemma ex_rename:
  "rename_block ''layer1'' (ex_checkpoint n) = ex_checkpoint n @ [(''0.conv1.weight'', (2304, 10 * n + 2))]"
  "rename_block ''layer2'' (ex_checkpoint n) = ex_checkpoint n @ [(''0.conv1.weight'', (4608, 10 * n + 3))]"
  "rename_block ''layer3'' (ex_checkpoint n) = ex_checkpoint n @ [(''0.conv1.weight'', (18432, 10 * n + 4))]"
  "rename_block ''fc'' (ex_checkpoint n) =
     ex_checkpoint n @ [(''weight'', (640, 10 * n + 5)), (''bias'', (10, 10 * n + 6))]"
  by (simp_all add: rename_block_def modified_dict_def dict_update_def ex_checkpoint_def
      startswith_def)

lemma ex_files_at:
  "torch_files ex_torch (saved_model_name (Some ''w'') ''wide_resnet'' 350) = Some (ex_checkpoint 350)"
  "torch_files ex_torch (saved_model_name (Some ''w'') ''wide_resnet'' 1) = Some (ex_checkpoint 1)"
  "torch_files ex_torch (saved_model_name (Some ''w'') ''wide_resnet'' 2) = Some (ex_checkpoint 2)"
  "torch_files ex_torch (saved_model_name (Some ''w'') ''wide_resnet'' 3) = Some (ex_checkpoint 3)"
  "torch_files ex_torch (saved_model_name (Some ''w'') ''wide_resnet'' 4) = Some (ex_checkpoint 4)"
  by (simp_all add: ex_paths ex_torch_def ex_files_def)

lemma ex_copy: "torch_copy ex_torch p v = (if fst p = fst v then Some v else None)"
  by (simp add: ex_torch_def)

text \<open>The whole-model load of the instance from any of its checkpoints.\<close>

lemma ex_load_state_dict:
  "load_state_dict (torch_copy ex_torch) ex_model (ex_checkpoint n) strict =
     (None, ex_model\<lparr>conv1 := [(''weight'', (432, 10 * n))],
        bn1 := [(''weight'', (16, 10 * n + 1))],
        layer1 := [(''0.conv1.weight'', (2304, 10 * n + 2))],
        layer2 := [(''0.conv1.weight'', (4608, 10 * n + 3))],
        layer3 := [(''0.conv1.weight'', (18432, 10 * n + 4))],
        fc := [(''weight'', (640, 10 * n + 5)), (''bias'', (10, 10 * n + 6))]\<rparr>)"
  by (simp add: load_state_dict_def Let_def named_children_def own_keys_def mismatched_def
      missing_keys_def loaded_def ex_model_def ex_checkpoint_def ex_copy)

lemma ex_renamed_lookup:
  "map_of (rename_block ''layer1'' (ex_checkpoint n)) ''0.conv1.weight'' = Some (2304, 10 * n + 2)"
  "map_of (rename_block ''layer2'' (ex_checkpoint n)) ''0.conv1.weight'' = Some (4608, 10 * n + 3)"
  "map_of (rename_block ''layer3'' (ex_checkpoint n)) ''0.conv1.weight'' = Some (18432, 10 * n + 4)"
  "map_of (rename_block ''fc'' (ex_checkpoint n)) ''weight'' = Some (640, 10 * n + 5)"
  "map_of (rename_block ''fc'' (ex_checkpoint n)) ''bias'' = Some (10, 10 * n + 6)"
  unfolding ex_rename by (simp_all add: ex_checkpoint_def)

text \<open>The blocks of the instance, whatever their contents, loaded from checkpoint \<open>n\<close>.\<close>

lemma ex_block_from_checkpoint:
  assumes "weight_root st = Some ''w''" and "model_name st = ''wide_resnet''"
    and "torch_files ex_torch (saved_model_name (Some ''w'') ''wide_resnet'' (int n)) =
      Some (ex_checkpoint n)"
  shows "layer1 st = [(''0.conv1.weight'', (2304, x))] \<Longrightarrow>
      block_from_checkpoint ex_torch st ''layer1'' (int n) =
        Some [(''0.conv1.weight'', (2304, 10 * n + 2))]"
    and "layer2 st = [(''0.conv1.weight'', (4608, x))] \<Longrightarrow>
      block_from_checkpoint ex_torch st ''layer2'' (int n) =
        Some [(''0.conv1.weight'', (4608, 10 * n + 3))]"
    and "layer3 st = [(''0.conv1.weight'', (18432, x))] \<Longrightarrow>
      block_from_checkpoint ex_torch st ''layer3'' (int n) =
        Some [(''0.conv1.weight'', (18432, 10 * n + 4))]"
    and "fc st = [(''weight'', (640, x)), (''bias'', (10, y))] \<Longrightarrow>
      block_from_checkpoint ex_torch st ''fc'' (int n) =
        Some [(''weight'', (640, 10 * n + 5)), (''bias'', (10, 10 * n + 6))]"
  by (simp_all add: block_from_checkpoint_def assms getattr_def ex_renamed_lookup mismatched_def
      loaded_def ex_copy)

lemma ex_world_self:
  "self ex_world = ex_model" "weight_root ex_model = Some ''w''"
  "model_name ex_model = ''wide_resnet''" "reads ex_world = []"
  by (simp_all add: ex_world_def ex_model_def)

theorem load_gumbel_weight_loads_witness:
  "4 \<le> length [0, 1, 2, 3 :: int] \<and>
   fst (load_gumbel_weight ex_torch ex_world) = Inr [0, 1, 2, 3] \<and>
   getattr (self (snd (load_gumbel_weight ex_torch ex_world))) (block_names ! 1) =
     Some [(''0.conv1.weight'', (4608, 23))] \<and>
   conv1 (self (snd (load_gumbel_weight ex_torch ex_world))) = [(''weight'', (432, 10))] \<and>
   fc (self (snd (load_gumbel_weight ex_torch ex_world))) =
     [(''weight'', (640, 45)), (''bias'', (10, 46))]"
proof -
  let ?st = "ex_model\<lparr>conv1 := [(''weight'', (432, 10 * 1))],
        bn1 := [(''weight'', (16, 10 * 1 + 1))],
        layer1 := [(''0.conv1.weight'', (2304, 10 * 1 + 2))],
        layer2 := [(''0.conv1.weight'', (4608, 10 * 1 + 3))],
        layer3 := [(''0.conv1.weight'', (18432, 10 * 1 + 4))],
        fc := [(''weight'', (640, 10 * 1 + 5)), (''bias'', (10, 10 * 1 + 6))]\<rparr>"
  let ?m = "\<lambda>idx::nat. if idx = 0 then [(''0.conv1.weight'', (2304, 12 :: nat))]
      else if idx = 1 then [(''0.conv1.weight'', (4608, 23))]
      else if idx = 2 then [(''0.conv1.weight'', (18432, 34))]
      else [(''weight'', (640, 45)), (''bias'', (10, 46))]"
  have comb: "[0, 1, 2, 3] =
      torch_argmax ex_torch (arch_weights ex_torch (self ex_world) False False) (- 1)"
    by (simp add: ex_torch_def)
  have len: "4 \<le> length [0, 1, 2, 3 :: int]"
    by simp
  have file0: "torch_files ex_torch (saved_model_name (weight_root (self ex_world))
      (model_name (self ex_world)) ([0, 1, 2, 3] ! 0 + 1)) = Some (ex_checkpoint 1)"
    using ex_files_at(2) by (simp add: ex_world_self)
  have strict: "load_state_dict (torch_copy ex_torch) (self ex_world) (ex_checkpoint 1) True =
      (None, ?st)"
    unfolding ex_world_self by (rule ex_load_state_dict)
  have at: "weight_root ?st = Some ''w''" "model_name ?st = ''wide_resnet''"
    by (simp_all add: ex_world_self)
  have blocks: "\<forall>idx<4. block_from_checkpoint ex_torch ?st (block_names ! idx)
      ([0, 1, 2, 3] ! idx + 1) = Some (?m idx)"
  proof (intro allI impI)
    fix idx :: nat
    assume "idx < 4"
    then consider "idx = 0" | "idx = 1" | "idx = 2" | "idx = 3"
      by linarith
    then show "block_from_checkpoint ex_torch ?st (block_names ! idx)
      ([0, 1, 2, 3] ! idx + 1) = Some (?m idx)"
    proof cases
      case 1
      then show ?thesis
        using ex_block_from_checkpoint(1) [OF at, of 1] ex_files_at(2)
        by (simp add: block_names_def)
    next
      case 2
      then show ?thesis
        using ex_block_from_checkpoint(2) [OF at, of 2] ex_files_at(3)
        by (simp add: block_names_def)
    next
      case 3
      then show ?thesis
        using ex_block_from_checkpoint(3) [OF at, of 3] ex_files_at(4)
        by (simp add: block_names_def)
    next
      case 4
      then show ?thesis
        using ex_block_from_checkpoint(4) [OF at, of 4] ex_files_at(5)
        by (simp add: block_names_def)
    qed
  qed
  note th = load_gumbel_weight_loads [OF comb len file0 strict blocks]
  from th have r: "fst (load_gumbel_weight ex_torch ex_world) = Inr [0, 1, 2, 3]"
    by (rule conjunct1)
  from th have "\<forall>idx<4. getattr (self (snd (load_gumbel_weight ex_torch ex_world)))
      (block_names ! idx) = Some (?m idx)"
    by (rule conjunct2 [THEN conjunct1])
  from this [rule_format, of 1]
  have l2: "getattr (self (snd (load_gumbel_weight ex_torch ex_world))) (block_names ! 1) =
      Some [(''0.conv1.weight'', (4608, 23))]"
    by simp
  from th have s: "self (snd (load_gumbel_weight ex_torch ex_world)) =
      ?st\<lparr>layer1 := ?m 0, layer2 := ?m 1, layer3 := ?m 2, fc := ?m 3\<rparr>"
    by (rule conjunct2 [THEN conjunct2])
  have c: "conv1 (self (snd (load_gumbel_weight ex_torch ex_world))) = [(''weight'', (432, 10))]"
    unfolding s by simp
  have f: "fc (self (snd (load_gumbel_weight ex_torch ex_world))) =
      [(''weight'', (640, 45)), (''bias'', (10, 46))]"
    unfolding s by simp
  from len r l2 c f show ?thesis by (intro conjI)
qed

section \<open>C3: load_combination_weight\<close>

lemma load_combination_weight_run:
  assumes "torch_files T (saved_model_name (Some weight_folder) (model_name (self w)) 350) = Some d0"
    and "load_state_dict (torch_copy T) ((self w)\<lparr>weight_root := Some weight_folder\<rparr>) d0 False
      = (None, st)"
    and "load_blocks T (first_number combination) block_names
      (w\<lparr>reads := reads w @ [saved_model_name (Some weight_folder) (model_name (self w)) 350],
         self := st\<rparr>) = (None, w2)"
  shows "load_combination_weight T combination weight_folder model_name_arg w = (Inr (), w2)"
  using assms by (simp add: load_combination_weight_def Let_def torch_load_def)

text \<open>
  What \<open>load_combination_weight\<close> does when nothing raises: every block is loaded from the
  checkpoint numbered \<open>combination[0] + 1\<close>, whatever the other entries of \<open>combination\<close>
  are.
\<close>

lemma load_combination_weight_first:
  assumes c: "combination = c # rest"
    and file0: "torch_files T (saved_model_name (Some weight_folder) (model_name (self w)) 350)
      = Some d0"
    and init: "load_state_dict (torch_copy T) ((self w)\<lparr>weight_root := Some weight_folder\<rparr>) d0 False
      = (None, st)"
    and blocks: "\<forall>idx<4. block_from_checkpoint T st (block_names ! idx) (c + 1) = Some (m idx)"
  shows "fst (load_combination_weight T combination weight_folder model_name_arg w) = Inr () \<and>
    self (snd (load_combination_weight T combination weight_folder model_name_arg w)) =
      st\<lparr>layer1 := m 0, layer2 := m 1, layer3 := m 2, fc := m 3\<rparr>"
proof -
  let ?w1 = "w\<lparr>reads := reads w @ [saved_model_name (Some weight_folder) (model_name (self w)) 350],
      self := st\<rparr>"
  have num: "\<forall>idx<4. first_number combination w' idx = Inr (c + 1)" for w'
    by (simp add: first_number_def getitem_def c)
  have blk: "\<forall>idx<4. block_from_checkpoint T (self ?w1) (block_names ! idx) (c + 1) = Some (m idx)"
    using blocks by simp
  note loop = load_blocks_ok [where number = "first_number combination" and w = "?w1"
      and n = "\<lambda>idx. c + 1", OF num blk]
  from load_combination_weight_run [OF file0 init loop] show ?thesis
    by simp
qed

text \<open>
  Claim C3 at the combination \<open>[0, 1, 2, 3]\<close>, on the instance whose directory \<open>w\<close> holds
  the checkpoints 1 to 4 and 350. The method returns normally and opens checkpoint 350 and then
  checkpoint 1 four times. The block \<open>layer2\<close>, at position 1, ends with the tensor of
  checkpoint 1 (contents 13); loaded from checkpoint \<open>combination[1] + 1 = 2\<close>, as the claim
  says and as \<open>load_gumbel_weight\<close> does, it would hold the tensor of checkpoint 2 (contents 23).
\<close>

theorem load_combination_weight_ignores_position:
  "fst (load_combination_weight ex_torch [0, 1, 2, 3] ''w'' ''wide_resnet'' ex_world) = Inr () \<and>
   reads (snd (load_combination_weight ex_torch [0, 1, 2, 3] ''w'' ''wide_resnet'' ex_world)) =
     [''w/wide_resnet_cross_entropy_350.model'', ''w/wide_resnet_cross_entropy_1.model'',
      ''w/wide_resnet_cross_entropy_1.model'', ''w/wide_resnet_cross_entropy_1.model'',
      ''w/wide_resnet_cross_entropy_1.model''] \<and>
   layer2 (self (snd (load_combination_weight ex_torch [0, 1, 2, 3] ''w'' ''wide_resnet'' ex_world)))
     = [(''0.conv1.weight'', (4608, 13))] \<and>
   block_from_checkpoint ex_torch ex_model ''layer2'' ([0, 1, 2, 3] ! 1 + 1)
     = Some [(''0.conv1.weight'', (4608, 23))]"
proof -
  let ?st = "ex_model\<lparr>conv1 := [(''weight'', (432, 10 * 350))],
        bn1 := [(''weight'', (16, 10 * 350 + 1))],
        layer1 := [(''0.conv1.weight'', (2304, 10 * 350 + 2))],
        layer2 := [(''0.conv1.weight'', (4608, 10 * 350 + 3))],
        layer3 := [(''0.conv1.weight'', (18432, 10 * 350 + 4))],
        fc := [(''weight'', (640, 10 * 350 + 5)), (''bias'', (10, 10 * 350 + 6))]\<rparr>"
  let ?m = "\<lambda>idx::nat. if idx = 0 then [(''0.conv1.weight'', (2304, 12 :: nat))]
      else if idx = 1 then [(''0.conv1.weight'', (4608, 13))]
      else if idx = 2 then [(''0.conv1.weight'', (18432, 14))]
      else [(''weight'', (640, 15)), (''bias'', (10, 16))]"
  let ?w1 = "ex_world\<lparr>reads := reads ex_world @
      [saved_model_name (Some ''w'') (model_name (self ex_world)) 350], self := ?st\<rparr>"
  have same: "(self ex_world)\<lparr>weight_root := Some ''w''\<rparr> = ex_model"
    by (simp add: ex_world_def ex_model_def)
  have file0: "torch_files ex_torch (saved_model_name (Some ''w'') (model_name (self ex_world)) 350)
      = Some (ex_checkpoint 350)"
    using ex_files_at(1) by (simp add: ex_world_self)
  have init: "load_state_dict (torch_copy ex_torch) ((self ex_world)\<lparr>weight_root := Some ''w''\<rparr>)
      (ex_checkpoint 350) False = (None, ?st)"
    unfolding same by (rule ex_load_state_dict)
  have at: "weight_root ?st = Some ''w''" "model_name ?st = ''wide_resnet''"
    by (simp_all add: ex_world_self)
  have blocks: "\<forall>idx<4. block_from_checkpoint ex_torch ?st (block_names ! idx) (0 + 1) = Some (?m idx)"
  proof (intro allI impI)
    fix idx :: nat
    assume "idx < 4"
    then consider "idx = 0" | "idx = 1" | "idx = 2" | "idx = 3"
      by linarith
    then show "block_from_checkpoint ex_torch ?st (block_names ! idx) (0 + 1) = Some (?m idx)"
    proof cases
      case 1
      then show ?thesis
        using ex_block_from_checkpoint(1) [OF at, of 1] ex_files_at(2)
        by (simp add: block_names_def)
    next
      case 2
      then show ?thesis
        using ex_block_from_checkpoint(2) [OF at, of 1] ex_files_at(2)
        by (simp add: block_names_def)
    next
      case 3
      then show ?thesis
        using ex_block_from_checkpoint(3) [OF at, of 1] ex_files_at(2)
        by (simp add: block_names_def)
    next
      case 4
      then show ?thesis
        using ex_block_from_checkpoint(4) [OF at, of 1] ex_files_at(2)
        by (simp add: block_names_def)
    qed
  qed
  have num: "\<forall>idx<4. first_number [0, 1, 2, 3] w' idx = Inr (0 + 1)" for w' :: "(nat \<times> nat, nat) world"
    by (simp add: first_number_def getitem_def)
  have blk: "\<forall>idx<4. block_from_checkpoint ex_torch (self ?w1) (block_names ! idx) (0 + 1)
      = Some (?m idx)"
    using blocks by simp
  note loop = load_blocks_ok [where number = "first_number [0, 1, 2, 3]" and w = "?w1"
      and n = "\<lambda>idx. 0 + 1", OF num blk]
  note run = load_combination_weight_run [OF file0 init loop, of "''wide_resnet''"]
  have 1: "fst (load_combination_weight ex_torch [0, 1, 2, 3] ''w'' ''wide_resnet'' ex_world) = Inr ()"
    by (simp add: run)
  have 2: "reads (snd (load_combination_weight ex_torch [0, 1, 2, 3] ''w'' ''wide_resnet'' ex_world)) =
     [''w/wide_resnet_cross_entropy_350.model'', ''w/wide_resnet_cross_entropy_1.model'',
      ''w/wide_resnet_cross_entropy_1.model'', ''w/wide_resnet_cross_entropy_1.model'',
      ''w/wide_resnet_cross_entropy_1.model'']"
    by (simp add: run ex_world_self ex_paths)
  have 3: "layer2 (self (snd (load_combination_weight ex_torch [0, 1, 2, 3] ''w'' ''wide_resnet''
      ex_world))) = [(''0.conv1.weight'', (4608, 13))]"
    by (simp add: run)
  have 4: "block_from_checkpoint ex_torch ex_model ''layer2'' ([0, 1, 2, 3] ! 1 + 1)
     = Some [(''0.conv1.weight'', (4608, 23))]"
    using ex_block_from_checkpoint(2) [OF ex_world_self(2,3), of 2 0] ex_files_at(3)
    by (simp add: ex_model_def)
  from 1 2 3 4 show ?thesis by (intro conjI)
qed

section \<open>C4: load_combination\<close>

lemma load_combination_run:
  assumes "torch_files T (saved_model_name (weight_root (self w)) (model_name (self w)) 350)
      = Some d0"
    and "load_state_dict (torch_copy T) (self w) d0 False = (None, st)"
    and "load_blocks T (ops_number index) block_names
      (w\<lparr>reads := reads w @ [saved_model_name (weight_root (self w)) (model_name (self w)) 350],
         self := st\<rparr>) = (err, w2)"
  shows "load_combination T index w =
    (case err of
       Some e \<Rightarrow> Inl e
     | None \<Rightarrow> (case ops (self w2) of None \<Rightarrow> Inl AttributeError
                 | Some table \<Rightarrow> gather table index), w2)"
  using assms
  by (simp add: load_combination_def Let_def torch_load_def split: option.splits)

text \<open>The sum wraps around: the entry \<open>2^63 - 1\<close> of \<open>self.ops\<close> gives the checkpoint
  number \<open>-2^63\<close>.\<close>

lemma ops_number_wraps:
  "ops_number [0] (ex_world\<lparr>self := ex_model\<lparr>ops := Some [9223372036854775807]\<rparr>\<rparr>) 0 =
     Inr (- 9223372036854775808)"
  by (simp add: ops_number_def getitem_def)

text \<open>
  Claim C4, as amended. Let \<open>self.ops\<close> be assigned, let \<open>index\<close> have at least four entries,
  each of them a position of \<open>self.ops\<close>, so that \<open>self.ops[index]\<close> is a tensor \<open>r\<close>; let
  the whole-model load from checkpoint 350 succeed and leave the model \<open>st\<close>, and let each
  block at position \<open>idx\<close> be loadable from checkpoint \<open>self.ops[index[idx]] + 1\<close>, the
  sum being the one of the tensor: in 64 bits, so that the entry \<open>2^63 - 1\<close> gives the number
  \<open>-2^63\<close>. Then \<open>load_combination\<close> completes without raising and returns \<open>r\<close>, where
  \<open>r[idx] = self.ops[index[idx]]\<close>; every block at position \<open>idx\<close> is the one loaded from
  the checkpoint numbered \<open>self.ops[index[idx]] + 1\<close>, and the rest of the model is as the
  whole-model load left it.
\<close>

theorem load_combination_loads:
  assumes table: "ops (self w) = Some table"
    and len: "4 \<le> length index"
    and valid: "gather table index = Inr r"
    and file0: "torch_files T (saved_model_name (weight_root (self w)) (model_name (self w)) 350)
      = Some d0"
    and init: "load_state_dict (torch_copy T) (self w) d0 False = (None, st)"
    and blocks: "\<forall>idx<4. block_from_checkpoint T st (block_names ! idx) (sint (r ! idx + 1))
      = Some (m idx)"
  shows "fst (load_combination T index w) = Inr r \<and>
    (\<forall>idx<4. getitem table (index ! idx) = Inr (r ! idx)) \<and>
    (\<forall>idx<4. getattr (self (snd (load_combination T index w))) (block_names ! idx) = Some (m idx)) \<and>
    self (snd (load_combination T index w)) = st\<lparr>layer1 := m 0, layer2 := m 1, layer3 := m 2, fc := m 3\<rparr>"
proof -
  let ?w1 = "w\<lparr>reads := reads w @ [saved_model_name (weight_root (self w)) (model_name (self w)) 350],
      self := st\<rparr>"
  have st: "st = snd (load_state_dict (torch_copy T) (self w) d0 False)"
    by (simp add: init)
  have ops_st: "ops st = Some table"
    unfolding st load_state_dict_attributes by (rule table)
  have at: "\<forall>idx<4. getitem table (index ! idx) = Inr (r ! idx)"
    using gather_nth [OF valid] len by simp
  have num: "\<forall>idx<4. ops_number index w' idx = Inr (sint (r ! idx + 1))"
    if "ops (self w') = ops (self ?w1)" for w'
  proof (intro allI impI)
    fix idx :: nat
    assume idx: "idx < 4"
    with len have "getitem index (int idx) = Inr (index ! idx)"
      by (simp add: getitem_nat)
    moreover from at idx have "getitem table (index ! idx) = Inr (r ! idx)"
      by simp
    moreover from that have "ops (self w') = Some table"
      by (simp add: ops_st)
    ultimately show "ops_number index w' idx = Inr (sint (r ! idx + 1))"
      by (simp add: ops_number_def)
  qed
  have blk: "\<forall>idx<4. block_from_checkpoint T (self ?w1) (block_names ! idx)
      (sint (r ! idx + 1)) = Some (m idx)"
    using blocks by simp
  note loop = load_blocks_ok [where number = "ops_number index" and w = "?w1"
      and n = "\<lambda>idx. sint (r ! idx + 1)", OF num blk]
  note run = load_combination_run [OF file0 init loop]
  have 1: "fst (load_combination T index w) = Inr r"
    by (simp add: run ops_st valid)
  have 3: "self (snd (load_combination T index w)) =
      st\<lparr>layer1 := m 0, layer2 := m 1, layer3 := m 2, fc := m 3\<rparr>"
    by (simp add: run)
  have 2: "\<forall>idx<4. getattr (self (snd (load_combination T index w))) (block_names ! idx) = Some (m idx)"
  proof (intro allI impI)
    fix idx :: nat
    assume "idx < 4"
    then consider "idx = 0" | "idx = 1" | "idx = 2" | "idx = 3"
      by linarith
    then show "getattr (self (snd (load_combination T index w))) (block_names ! idx) = Some (m idx)"
      unfolding 3
      by cases (simp_all add: block_names_def getattr_def)
  qed
  from 1 at 2 3 show ?thesis by (intro conjI)
qed

lemma ex_ops: "ops ex_model = Some [3, 2, 1, 0]"
  by (simp add: ex_model_def)

theorem load_combination_loads_witness:
  "4 \<le> length [0, 1, 2, 3 :: int] \<and>
   gather [3, 2, 1, 0 :: 64 word] [0, 1, 2, 3] = Inr [3, 2, 1, 0] \<and>
   fst (load_combination ex_torch [0, 1, 2, 3] ex_world) = Inr [3, 2, 1, 0] \<and>
   getattr (self (snd (load_combination ex_torch [0, 1, 2, 3] ex_world))) (block_names ! 2) =
     Some [(''0.conv1.weight'', (18432, 24))] \<and>
   layer1 (self (snd (load_combination ex_torch [0, 1, 2, 3] ex_world))) =
     [(''0.conv1.weight'', (2304, 42))] \<and>
   conv1 (self (snd (load_combination ex_torch [0, 1, 2, 3] ex_world))) = [(''weight'', (432, 3500))]"
proof -
  let ?st = "ex_model\<lparr>conv1 := [(''weight'', (432, 10 * 350))],
        bn1 := [(''weight'', (16, 10 * 350 + 1))],
        layer1 := [(''0.conv1.weight'', (2304, 10 * 350 + 2))],
        layer2 := [(''0.conv1.weight'', (4608, 10 * 350 + 3))],
        layer3 := [(''0.conv1.weight'', (18432, 10 * 350 + 4))],
        fc := [(''weight'', (640, 10 * 350 + 5)), (''bias'', (10, 10 * 350 + 6))]\<rparr>"
  let ?m = "\<lambda>idx::nat. if idx = 0 then [(''0.conv1.weight'', (2304, 42 :: nat))]
      else if idx = 1 then [(''0.conv1.weight'', (4608, 33))]
      else if idx = 2 then [(''0.conv1.weight'', (18432, 24))]
      else [(''weight'', (640, 15)), (''bias'', (10, 16))]"
  have table: "ops (self ex_world) = Some [3, 2, 1, 0]"
    by (simp add: ex_world_self ex_ops)
  have len: "4 \<le> length [0, 1, 2, 3 :: int]"
    by simp
  have valid: "gather [3, 2, 1, 0 :: 64 word] [0, 1, 2, 3] = Inr [3, 2, 1, 0]"
    by (simp add: getitem_def)
  have file0: "torch_files ex_torch (saved_model_name (weight_root (self ex_world))
      (model_name (self ex_world)) 350) = Some (ex_checkpoint 350)"
    using ex_files_at(1) by (simp add: ex_world_self)
  have init: "load_state_dict (torch_copy ex_torch) (self ex_world) (ex_checkpoint 350) False =
      (None, ?st)"
    unfolding ex_world_self by (rule ex_load_state_dict)
  have at: "weight_root ?st = Some ''w''" "model_name ?st = ''wide_resnet''"
    by (simp_all add: ex_world_self)
  have blocks: "\<forall>idx<4. block_from_checkpoint ex_torch ?st (block_names ! idx)
      (sint ([3, 2, 1, 0] ! idx + 1 :: 64 word)) = Some (?m idx)"
  proof (intro allI impI)
    fix idx :: nat
    assume "idx < 4"
    then consider "idx = 0" | "idx = 1" | "idx = 2" | "idx = 3"
      by linarith
    then show "block_from_checkpoint ex_torch ?st (block_names ! idx)
      (sint ([3, 2, 1, 0] ! idx + 1 :: 64 word)) = Some (?m idx)"
    proof cases
      case 1
      then show ?thesis
        using ex_block_from_checkpoint(1) [OF at, of 4] ex_files_at(5)
        by (simp add: block_names_def)
    next
      case 2
      then show ?thesis
        using ex_block_from_checkpoint(2) [OF at, of 3] ex_files_at(4)
        by (simp add: block_names_def)
    next
      case 3
      then show ?thesis
        using ex_block_from_checkpoint(3) [OF at, of 2] ex_files_at(3)
        by (simp add: block_names_def)
    next
      case 4
      then show ?thesis
        using ex_block_from_checkpoint(4) [OF at, of 1] ex_files_at(2)
        by (simp add: block_names_def)
    qed
  qed
  note th = load_combination_loads [OF table len valid file0 init blocks]
  from th have r: "fst (load_combination ex_torch [0, 1, 2, 3] ex_world) = Inr [3, 2, 1, 0]"
    by (rule conjunct1)
  from th have "\<forall>idx<4. getattr (self (snd (load_combination ex_torch [0, 1, 2, 3] ex_world)))
      (block_names ! idx) = Some (?m idx)"
    by (rule conjunct2 [THEN conjunct2, THEN conjunct1])
  from this [rule_format, of 2]
  have l3: "getattr (self (snd (load_combination ex_torch [0, 1, 2, 3] ex_world))) (block_names ! 2) =
      Some [(''0.conv1.weight'', (18432, 24))]"
    by simp
  from th have s: "self (snd (load_combination ex_torch [0, 1, 2, 3] ex_world)) =
      ?st\<lparr>layer1 := ?m 0, layer2 := ?m 1, layer3 := ?m 2, fc := ?m 3\<rparr>"
    by (rule conjunct2 [THEN conjunct2, THEN conjunct2])
  have l1: "layer1 (self (snd (load_combination ex_torch [0, 1, 2, 3] ex_world))) =
      [(''0.conv1.weight'', (2304, 42))]"
    unfolding s by simp
  have c: "conv1 (self (snd (load_combination ex_torch [0, 1, 2, 3] ex_world))) =
      [(''weight'', (432, 3500))]"
    unfolding s by simp
  from len valid r l3 l1 c show ?thesis by (intro conjI)
qed

text \<open>
  The claim as stated fails at an index tensor with three entries: on the instance, where
  \<open>self.ops\<close> is assigned and every checkpoint is present, the first three rounds of the loop
  succeed and the fourth raises \<open>IndexError\<close> at \<open>index[3]\<close>.
\<close>

theorem load_combination_counterexample:
  "fst (load_combination ex_torch [0, 1, 2] ex_world) = Inl IndexError"
proof -
  let ?st = "ex_model\<lparr>conv1 := [(''weight'', (432, 10 * 350))],
        bn1 := [(''weight'', (16, 10 * 350 + 1))],
        layer1 := [(''0.conv1.weight'', (2304, 10 * 350 + 2))],
        layer2 := [(''0.conv1.weight'', (4608, 10 * 350 + 3))],
        layer3 := [(''0.conv1.weight'', (18432, 10 * 350 + 4))],
        fc := [(''weight'', (640, 10 * 350 + 5)), (''bias'', (10, 10 * 350 + 6))]\<rparr>"
  let ?num = "ops_number [0, 1, 2] :: (nat \<times> nat, nat) world \<Rightarrow> nat \<Rightarrow> error + int"
  let ?w0 = "ex_world\<lparr>reads := reads ex_world @ [saved_model_name (weight_root (self ex_world))
      (model_name (self ex_world)) 350], self := ?st\<rparr>"
  let ?w1 = "?w0\<lparr>reads := reads ?w0 @ [saved_model_name (weight_root (self ?w0))
      (model_name (self ?w0)) 4],
    self := put_module (self ?w0) ''layer1'' [(''0.conv1.weight'', (2304, 10 * 4 + 2))]\<rparr>"
  let ?w2 = "?w1\<lparr>reads := reads ?w1 @ [saved_model_name (weight_root (self ?w1))
      (model_name (self ?w1)) 3],
    self := put_module (self ?w1) ''layer2'' [(''0.conv1.weight'', (4608, 10 * 3 + 3))]\<rparr>"
  let ?w3 = "?w2\<lparr>reads := reads ?w2 @ [saved_model_name (weight_root (self ?w2))
      (model_name (self ?w2)) 2],
    self := put_module (self ?w2) ''layer3'' [(''0.conv1.weight'', (18432, 10 * 2 + 4))]\<rparr>"
  have file0: "torch_files ex_torch (saved_model_name (weight_root (self ex_world))
      (model_name (self ex_world)) 350) = Some (ex_checkpoint 350)"
    using ex_files_at(1) by (simp add: ex_world_self)
  have init: "load_state_dict (torch_copy ex_torch) (self ex_world) (ex_checkpoint 350) False =
      (None, ?st)"
    unfolding ex_world_self by (rule ex_load_state_dict)
  have n0: "?num ?w0 0 = Inr 4"
    by (simp add: ops_number_def getitem_def ex_ops)
  have n1: "?num ?w1 1 = Inr 3"
    by (simp add: ops_number_def getitem_def ex_ops put_module_attributes)
  have n2: "?num ?w2 2 = Inr 2"
    by (simp add: ops_number_def getitem_def ex_ops put_module_attributes)
  have n3: "?num ?w3 3 = Inl IndexError"
    by (simp add: ops_number_def getitem_def ex_ops put_module_attributes)
  have b0: "block_from_checkpoint ex_torch (self ?w0) ''layer1'' 4 =
      Some [(''0.conv1.weight'', (2304, 10 * 4 + 2))]"
    using ex_block_from_checkpoint(1) [of "self ?w0" 4] ex_files_at(5)
    by (simp add: ex_world_self)
  have b1: "block_from_checkpoint ex_torch (self ?w1) ''layer2'' 3 =
      Some [(''0.conv1.weight'', (4608, 10 * 3 + 3))]"
    using ex_block_from_checkpoint(2) [of "self ?w1" 3] ex_files_at(4)
    by (simp add: ex_world_self put_module_attributes put_module_def)
  have b2: "block_from_checkpoint ex_torch (self ?w2) ''layer3'' 2 =
      Some [(''0.conv1.weight'', (18432, 10 * 2 + 4))]"
    using ex_block_from_checkpoint(3) [of "self ?w2" 2] ex_files_at(3)
    by (simp add: ex_world_self put_module_attributes put_module_def)
  have "load_blocks ex_torch ?num block_names ?w0 =
      load_blocks ex_torch ?num [''layer2'', ''layer3'', ''fc''] ?w1"
    using load_blocks_step [where number = "?num" and w = "?w0", OF block_positions(1) n0 b0]
    by (simp add: block_names_def)
  also have "\<dots> = load_blocks ex_torch ?num [''layer3'', ''fc''] ?w2"
    by (rule load_blocks_step [where number = "?num" and w = "?w1", OF block_positions(2) n1 b1])
  also have "\<dots> = load_blocks ex_torch ?num [''fc''] ?w3"
    by (rule load_blocks_step [where number = "?num" and w = "?w2", OF block_positions(3) n2 b2])
  also have "\<dots> = (Some IndexError, ?w3)"
    using n3 by (simp add: block_positions(4))
  finally have loop: "load_blocks ex_torch ?num block_names ?w0 = (Some IndexError, ?w3)" .
  from load_combination_run [OF file0 init loop] show ?thesis
    by simp
qed

section \<open>C1: arch_weights\<close>

text \<open>
  Claim C1. For every model state, \<open>arch_weights\<close> is
  \<open>gumbel_softmax(self.alphas, tau=self._tau, dim=-1, g=self.gumbel)\<close>: with \<open>cat=True\<close>
  it returns \<open>torch.cat\<close> of these weights, with \<open>cat=False\<close> the weights themselves. The
  argument \<open>smooth\<close> has no influence.
\<close>

theorem arch_weights_gumbel_softmax:
  "arch_weights T net smooth True =
     torch_cat T (gumbel_softmax T (alphas net) (tau net) (- 1) (gumbel net)) \<and>
   arch_weights T net smooth False =
     gumbel_softmax T (alphas net) (tau net) (- 1) (gumbel net)"
  by (simp add: arch_weights_def)

section \<open>C7: BasicBlock.forward\<close>

text \<open>
  Claim C7. \<open>BasicBlock.forward\<close> returns a tensor \<open>y\<close> exactly when the modules and the
  addition return the intermediate tensors and \<open>y\<close> is
  \<open>relu(bn2(conv2(relu(bn1(conv1(x))))) + r)\<close>, where the residual \<open>r\<close> is
  \<open>downsample(x)\<close> when a downsample module is set and \<open>x\<close> itself otherwise.
\<close>

theorem BasicBlock_forward_eq:
  "BasicBlock_forward NN blk x = Inr y \<longleftrightarrow>
     (\<exists>a b c d e r s.
        BasicBlock.conv1 blk x = Inr a \<and> BasicBlock.bn1 blk a = Inr b \<and>
        BasicBlock.relu blk b = Inr c \<and> conv2 blk c = Inr d \<and> bn2 blk d = Inr e \<and>
        (case downsample blk of None \<Rightarrow> r = x | Some ds \<Rightarrow> ds x = Inr r) \<and>
        iadd NN e r = Inr s \<and> BasicBlock.relu blk s = Inr y)"
  by (auto simp: BasicBlock_forward_def Let_def split: sum.splits option.splits)

section \<open>Sizes through the network\<close>

lemma size_nn_simps:
  "Conv2d (size_nn tr) = conv2d_size" "BatchNorm2d (size_nn tr) = batchnorm2d_size tr"
  "ReLU (size_nn tr) = relu_size" "AvgPool2d (size_nn tr) = avgpool2d_size"
  "Linear (size_nn tr) = linear_size" "iadd (size_nn tr) = iadd_size"
  "view_rows (size_nn tr) = view_rows_size" "truediv (size_nn tr) x t = x"
  by (simp_all add: size_nn_def)

lemma iadd_size_same: "iadd_size x x = Inr x"
  by (simp add: iadd_size_def broadcasts_to_def list_all2_same)

text \<open>A block without downsample module keeps the size.\<close>

lemma plain_block_size:
  assumes "2 \<le> h" and "2 \<le> w"
  shows "BasicBlock_forward (size_nn tr) (BasicBlock_init (size_nn tr) p p 1 None) [n, p, h, w]
    = Inr [n, p, h, w]"
proof -
  have "n * h * w \<noteq> 1"
    using assms by auto
  then show ?thesis
    using assms
    by (simp add: BasicBlock_forward_def BasicBlock_init_def conv3x3_def size_nn_simps
        conv2d_size_def batchnorm2d_size_def relu_size_def conv_out_def iadd_size_same)
qed

text \<open>The first block of a layer, with the downsample module that \<open>_make_layer\<close> gives it:
  the channels become \<open>p\<close> and each spatial extent \<open>n\<close> becomes \<open>(n - 1) div s + 1\<close>.\<close>

lemma first_block_size:
  assumes "0 < s" and "s \<le> 2" and "4 \<le> h" and "4 \<le> w"
  shows "BasicBlock_forward (size_nn tr)
      (BasicBlock_init (size_nn tr) i p s
        (if s \<noteq> 1 \<or> i \<noteq> p * expansion
         then Some (Sequential [Conv2d (size_nn tr) i (p * expansion) 1 s 0,
                                BatchNorm2d (size_nn tr) (p * expansion)])
         else None))
      [n, i, h, w] = Inr [n, p, (h - 1) div s + 1, (w - 1) div s + 1]"
proof -
  from assms have s: "s = 1 \<or> s = 2"
    by auto
  have big: "(h - Suc 0) div s \<noteq> 0"
    using assms(3) s by auto
  show ?thesis
    using assms big
    by (simp add: BasicBlock_forward_def BasicBlock_init_def conv3x3_def size_nn_simps
        conv2d_size_def batchnorm2d_size_def relu_size_def conv_out_def iadd_size_same
        expansion_def)
qed

lemma plain_blocks_size:
  assumes "2 \<le> h" and "2 \<le> w"
  shows "Sequential (replicate k
      (BasicBlock_forward (size_nn tr) (BasicBlock_init (size_nn tr) p p 1 None))) [n, p, h, w]
    = Inr [n, p, h, w]"
proof (induction k)
  case 0
  show ?case by simp
next
  case (Suc k)
  then show ?case
    by (simp only: replicate_Suc Sequential.simps plain_block_size [OF assms] sum.case)
qed

lemma make_layer_inplanes: "snd (make_layer NN i p blocks s) = p"
  by (simp add: make_layer_def Let_def expansion_def)

lemma seq_first:
  "f x = Inr y \<Longrightarrow> Sequential r y = Inr z \<Longrightarrow> Sequential (f # r) x = Inr z"
  by simp

lemma make_layer_size:
  assumes "0 < s" and "s \<le> 2" and "4 \<le> h" and "4 \<le> w"
  shows "fst (make_layer (size_nn tr) i p blocks s) [n, i, h, w] =
      Inr [n, p, (h - 1) div s + 1, (w - 1) div s + 1]"
proof -
  from assms have s: "s = 1 \<or> s = 2"
    by auto
  have "2 \<le> (h - 1) div s + 1" and "2 \<le> (w - 1) div s + 1"
    using assms(3,4) s by auto
  note rest = plain_blocks_size [OF this]
  have pe: "p * expansion = p"
    by (simp add: expansion_def)
  show ?thesis
    unfolding make_layer_def Let_def fst_conv
  proof (rule seq_first)
    show "BasicBlock_forward (size_nn tr)
      (BasicBlock_init (size_nn tr) i p s
        (if s \<noteq> 1 \<or> i \<noteq> p * expansion
         then Some (Sequential [Conv2d (size_nn tr) i (p * expansion) 1 s 0,
                                BatchNorm2d (size_nn tr) (p * expansion)])
         else None))
      [n, i, h, w] = Inr [n, p, (h - 1) div s + 1, (w - 1) div s + 1]"
      by (rule first_block_size [OF assms])
    show "Sequential (replicate (blocks - 1)
        (BasicBlock_forward (size_nn tr) (BasicBlock_init (size_nn tr) (p * expansion) p 1 None)))
        [n, p, (h - 1) div s + 1, (w - 1) div s + 1] =
        Inr [n, p, (h - 1) div s + 1, (w - 1) div s + 1]"
      unfolding pe by (rule rest)
  qed
qed

lemma forward_eq:
  "forward NN net x = Inr y \<longleftrightarrow>
     (\<exists>x1 x2 x3 x4 x5 x6 x7 x8 x9.
        conv1 net x = Inr x1 \<and> bn1 net x1 = Inr x2 \<and> relu net x2 = Inr x3 \<and>
        layer1 net x3 = Inr x4 \<and> layer2 net x4 = Inr x5 \<and> layer3 net x5 = Inr x6 \<and>
        avgpool net x6 = Inr x7 \<and> view_rows NN x7 = Inr x8 \<and> fc net x8 = Inr x9 \<and>
        y = truediv NN x9 (temp net))"
  by (auto simp: forward_def split: sum.splits)

text \<open>The loop over the convolutions raises nothing exactly when every kernel size and every
  number of output channels is positive.\<close>

lemma init_weights_None:
  "init_weights ms = None \<longleftrightarrow> (\<forall>(k, out) \<in> set ms. 0 < k \<and> 0 < out)"
  by (induction ms rule: init_weights.induct) (auto simp: Let_def)

lemma init_weights_raises:
  "init_weights ms \<noteq> None \<Longrightarrow> init_weights ms = Some ZeroDivisionError"
  by (induction ms rule: init_weights.induct) (auto simp: Let_def split: if_splits)

lemma make_layer_convs_positive:
  "0 < p \<Longrightarrow> \<forall>(k, out) \<in> set (make_layer_convs i p blocks s). 0 < k \<and> 0 < out"
  by (auto simp: make_layer_convs_def expansion_def)

lemma init_size:
  assumes "3 \<le> length layers" and "0 < wfactor"
    and "initialize_alphas S g = Inr ((a, noise), g')"
  shows "Wide_ResNet_Cifar_init NN S g layers wfactor num_classes temp_arg tau_arg root =
    Inr (\<lparr>inplanes = snd (make_layer NN
               (snd (make_layer NN (snd (make_layer NN 16 (16 * wfactor) (layers ! 0) 1))
                  (32 * wfactor) (layers ! 1) 2))
               (64 * wfactor) (layers ! 2) 2),
           conv1 = Conv2d NN 3 16 3 1 1,
           bn1 = BatchNorm2d NN 16,
           relu = ReLU NN,
           layer1 = fst (make_layer NN 16 (16 * wfactor) (layers ! 0) 1),
           layer2 = fst (make_layer NN (snd (make_layer NN 16 (16 * wfactor) (layers ! 0) 1))
                      (32 * wfactor) (layers ! 1) 2),
           layer3 = fst (make_layer NN
               (snd (make_layer NN (snd (make_layer NN 16 (16 * wfactor) (layers ! 0) 1))
                  (32 * wfactor) (layers ! 1) 2))
               (64 * wfactor) (layers ! 2) 2),
           avgpool = AvgPool2d NN 8 1,
           fc = Linear NN (64 * expansion * wfactor) num_classes,
           temp = temp_arg,
           tau = tau_arg,
           weight_root = root,
           model_name = ''wide_resnet'',
           alphas = a,
           gumbel = noise,
           ops = None\<rparr>, g')"
proof -
  from assms(1) have "layers \<noteq> []"
    by (cases layers) simp_all
  with assms(1) have items: "getitem layers 0 = Inr (layers ! 0)"
    "getitem layers 1 = Inr (layers ! 1)" "getitem layers 2 = Inr (layers ! 2)"
    by (simp_all add: getitem_def)
  let ?convs = "(3, 16) # make_layer_convs 16 (16 * wfactor) (layers ! 0) 1 @
      make_layer_convs (snd (make_layer NN 16 (16 * wfactor) (layers ! 0) 1))
        (32 * wfactor) (layers ! 1) 2 @
      make_layer_convs (snd (make_layer NN (snd (make_layer NN 16 (16 * wfactor) (layers ! 0) 1))
          (32 * wfactor) (layers ! 1) 2)) (64 * wfactor) (layers ! 2) 2"
  from assms(2) have "0 < 16 * wfactor" "0 < 32 * wfactor" "0 < 64 * wfactor"
    by simp_all
  then have "\<forall>(k, out) \<in> set ?convs. 0 < k \<and> 0 < out"
    using make_layer_convs_positive [of "16 * wfactor"] make_layer_convs_positive [of "32 * wfactor"]
      make_layer_convs_positive [of "64 * wfactor"]
    by (simp add: ball_Un)
  then have loop: "init_weights ?convs = None"
    by (simp only: init_weights_None)
  show ?thesis
    unfolding Wide_ResNet_Cifar_init_def items sum.case Let_def case_prod_beta loop option.case
      assms(3)
    by simp
qed

text \<open>With the width factor 0 the convolutions of the first layer have no output channels, and
  the constructor raises in its loop.\<close>

lemma init_zero_width:
  assumes "3 \<le> length layers"
  shows "Wide_ResNet_Cifar_init NN S g layers 0 num_classes temp_arg tau_arg root =
    Inl ZeroDivisionError"
proof -
  from assms(1) have "layers \<noteq> []"
    by (cases layers) simp_all
  with assms(1) have items: "getitem layers 0 = Inr (layers ! 0)"
    "getitem layers 1 = Inr (layers ! 1)" "getitem layers 2 = Inr (layers ! 2)"
    by (simp_all add: getitem_def)
  show ?thesis
    unfolding Wide_ResNet_Cifar_init_def items sum.case Let_def case_prod_beta
    by (simp add: make_layer_convs_def)
qed

text \<open>
  A batch of \<open>n\<close> images through a constructed network: the stem keeps 32 by 32 with 16
  channels, the layers give 32 by 32, 16 by 16 and 8 by 8 with \<open>16 * wfactor\<close>,
  \<open>32 * wfactor\<close> and \<open>64 * wfactor\<close> channels, and the pooling gives 1 by 1. For an empty
  batch the reshaping raises.
\<close>

lemma constructed_forward_size:
  fixes temp_arg :: 'f
  assumes layers: "3 \<le> length layers" and wf: "0 < wfactor"
    and ia: "initialize_alphas S g = Inr ((a, noise), g')"
  shows "\<exists>net. Wide_ResNet_Cifar_init (size_nn tr) S g layers wfactor num_classes temp_arg tau_arg
      root = Inr (net, g') \<and>
    forward (size_nn tr) net [n, 3, 32, 32] =
      (if n = 0 then Inl RuntimeError else Inr [n, num_classes])"
proof -
  let ?NN = "size_nn tr :: (nat list, 'f) nn"
  let ?m1 = "make_layer ?NN 16 (16 * wfactor) (layers ! 0) 1"
  let ?m2 = "make_layer ?NN (snd ?m1) (32 * wfactor) (layers ! 1) 2"
  let ?m3 = "make_layer ?NN (snd ?m2) (64 * wfactor) (layers ! 2) 2"
  from init_size [OF layers wf ia, of ?NN num_classes temp_arg tau_arg root]
  obtain net where init: "Wide_ResNet_Cifar_init ?NN S g layers wfactor num_classes temp_arg
      tau_arg root = Inr (net, g')"
    and net: "conv1 net = conv2d_size 3 16 3 1 1" "bn1 net = batchnorm2d_size tr 16"
    "relu net = relu_size" "layer1 net = fst ?m1" "layer2 net = fst ?m2" "layer3 net = fst ?m3"
    "avgpool net = avgpool2d_size 8 1" "fc net = linear_size (64 * expansion * wfactor) num_classes"
    by (simp add: size_nn_simps)
  have c1: "conv1 net [n, 3, 32, 32] = Inr [n, 16, 32, 32]"
    by (simp add: net conv2d_size_def conv_out_def)
  have b1: "bn1 net [n, 16, 32, 32] = Inr [n, 16, 32, 32]"
    by (simp add: net batchnorm2d_size_def)
  have r1: "relu net [n, 16, 32, 32] = Inr [n, 16, 32, 32]"
    by (simp add: net relu_size_def)
  have l1: "layer1 net [n, 16, 32, 32] = Inr [n, 16 * wfactor, 32, 32]"
    using make_layer_size [of 1 32 32 tr 16 "16 * wfactor" "layers ! 0" n]
    by (simp add: net)
  have l2: "layer2 net [n, 16 * wfactor, 32, 32] = Inr [n, 32 * wfactor, 16, 16]"
    using make_layer_size [of 2 32 32 tr "16 * wfactor" "32 * wfactor" "layers ! 1" n]
    by (simp add: net make_layer_inplanes)
  have l3: "layer3 net [n, 32 * wfactor, 16, 16] = Inr [n, 64 * wfactor, 8, 8]"
    using make_layer_size [of 2 16 16 tr "32 * wfactor" "64 * wfactor" "layers ! 2" n]
    by (simp add: net make_layer_inplanes)
  have ap: "avgpool net [n, 64 * wfactor, 8, 8] = Inr [n, 64 * wfactor, 1, 1]"
    by (simp add: net avgpool2d_size_def)
  have vw: "view_rows_size [n, 64 * wfactor, 1, 1] =
      (if n = 0 then Inl RuntimeError else Inr [n, 64 * wfactor])"
    by (simp add: view_rows_size_def)
  have fc: "fc net [n, 64 * wfactor] = Inr [n, num_classes]"
    by (simp add: net linear_size_def expansion_def)
  have "forward (size_nn tr) net [n, 3, 32, 32] =
      (case view_rows_size [n, 64 * wfactor, 1, 1] of
         Inl e \<Rightarrow> Inl e
       | Inr x8 \<Rightarrow> (case fc net x8 of Inl e \<Rightarrow> Inl e | Inr x9 \<Rightarrow> Inr x9))"
    by (simp only: forward_def c1 b1 r1 l1 l2 l3 ap sum.case size_nn_simps)
  then have "forward (size_nn tr) net [n, 3, 32, 32] =
      (if n = 0 then Inl RuntimeError else Inr [n, num_classes])"
    unfolding vw by (simp add: fc)
  with init show ?thesis
    by blast
qed

lemma size_sampler_draws:
  "initialize_alphas size_sampler () = Inr (([4, 350], [4, 350]), ())"
  by (simp add: initialize_alphas_def size_sampler_def)

section \<open>C6: Wide_ResNet_Cifar.forward\<close>

text \<open>
  Claim C6, as amended. \<open>forward\<close> returns a tensor \<open>y\<close> exactly when every module call
  and the reshaping succeed and \<open>y\<close> is
  \<open>fc(flatten(avgpool(layer3(layer2(layer1(relu(bn1(conv1(x))))))))) / self.temp\<close>. Let the
  constructor get three layer counts and a positive width factor, and let
  \<open>_initialize_alphas\<close> find its device, so that the constructor returns a network. On this
  network, in training or evaluation mode, the forward pass of a non-empty batch of \<open>n\<close>
  images with 3 channels and 32 by 32 pixels raises nothing, and its result has the size
  \<open>[n, num_classes]\<close>: one row per sample and \<open>num_classes\<close> columns.
\<close>

theorem forward_composition_size:
  "(forward NN net x = Inr y \<longleftrightarrow>
     (\<exists>x1 x2 x3 x4 x5 x6 x7 x8 x9.
        conv1 net x = Inr x1 \<and> bn1 net x1 = Inr x2 \<and> relu net x2 = Inr x3 \<and>
        layer1 net x3 = Inr x4 \<and> layer2 net x4 = Inr x5 \<and> layer3 net x5 = Inr x6 \<and>
        avgpool net x6 = Inr x7 \<and> view_rows NN x7 = Inr x8 \<and> fc net x8 = Inr x9 \<and>
        y = truediv NN x9 (temp net))) \<and>
   (3 \<le> length layers \<and> 0 < wfactor \<and> initialize_alphas S g = Inr z \<and> 0 < n \<longrightarrow>
     (case Wide_ResNet_Cifar_init (size_nn training) S g layers wfactor num_classes temp_arg
             tau_arg root of
        Inl e \<Rightarrow> False
      | Inr (built, g') \<Rightarrow> forward (size_nn training) built [n, 3, 32, 32] = Inr [n, num_classes]))"
proof (intro conjI impI)
  show "forward NN net x = Inr y \<longleftrightarrow>
     (\<exists>x1 x2 x3 x4 x5 x6 x7 x8 x9.
        conv1 net x = Inr x1 \<and> bn1 net x1 = Inr x2 \<and> relu net x2 = Inr x3 \<and>
        layer1 net x3 = Inr x4 \<and> layer2 net x4 = Inr x5 \<and> layer3 net x5 = Inr x6 \<and>
        avgpool net x6 = Inr x7 \<and> view_rows NN x7 = Inr x8 \<and> fc net x8 = Inr x9 \<and>
        y = truediv NN x9 (temp net))"
    by (rule forward_eq)
next
  assume a: "3 \<le> length layers \<and> 0 < wfactor \<and> initialize_alphas S g = Inr z \<and> 0 < n"
  obtain al noise g' where z: "z = ((al, noise), g')"
    by (cases z) auto
  from a have layers: "3 \<le> length layers" and wf: "0 < wfactor"
    and ia: "initialize_alphas S g = Inr ((al, noise), g')" and n: "0 < n"
    by (simp_all add: z)
  from constructed_forward_size [OF layers wf ia, of training num_classes temp_arg tau_arg root n]
  obtain built where
    init: "Wide_ResNet_Cifar_init (size_nn training) S g layers wfactor num_classes temp_arg
      tau_arg root = Inr (built, g')"
    and fw: "forward (size_nn training) built [n, 3, 32, 32] =
      (if n = 0 then Inl RuntimeError else Inr [n, num_classes])"
    by blast
  from fw n show "case Wide_ResNet_Cifar_init (size_nn training) S g layers wfactor num_classes
             temp_arg tau_arg root of
        Inl e \<Rightarrow> False
      | Inr (built, g') \<Rightarrow> forward (size_nn training) built [n, 3, 32, 32] = Inr [n, num_classes]"
    by (simp add: init)
qed

theorem forward_composition_size_witness:
  "3 \<le> length [4, 4, 4 :: nat] \<and> (0 :: nat) < 10 \<and>
   initialize_alphas size_sampler () = Inr (([4, 350], [4, 350]), ()) \<and> (0 :: nat) < 128 \<and>
   (case Wide_ResNet_Cifar_init (size_nn True) size_sampler () [4, 4, 4] 10 10 (2 :: nat) 3 None of
      Inl e \<Rightarrow> False
    | Inr (built, g') \<Rightarrow> forward (size_nn True) built [128, 3, 32, 32] = Inr [128, 10])"
proof -
  have h: "3 \<le> length [4, 4, 4 :: nat] \<and> (0 :: nat) < 10 \<and>
      initialize_alphas size_sampler () = Inr (([4, 350], [4, 350]), ()) \<and> (0 :: nat) < 128"
    by (simp add: size_sampler_draws)
  from forward_composition_size [where layers = "[4, 4, 4]" and wfactor = 10 and n = 128
      and training = True and S = size_sampler and g = "()" and num_classes = 10
      and temp_arg = "2 :: nat" and tau_arg = 3 and root = None
      and z = "(([4, 350], [4, 350]), ())", THEN conjunct2, rule_format, OF h]
  have "case Wide_ResNet_Cifar_init (size_nn True) size_sampler () [4, 4, 4] 10 10 (2 :: nat) 3
        None of
      Inl e \<Rightarrow> False
    | Inr (built, g') \<Rightarrow> forward (size_nn True) built [128, 3, 32, 32] = Inr [128, 10]" .
  with h show ?thesis
    by (intro conjI) (elim conjE, assumption)+
qed

text \<open>
  The claim as stated fails at the empty batch: on the network of depth 26 and width 10 the
  forward pass of a tensor of size \<open>[0, 3, 32, 32]\<close> reaches \<open>x.view(x.size(0), -1)\<close> with
  the size \<open>[0, 640, 1, 1]\<close>, where the extent \<open>-1\<close> cannot be inferred, and raises
  \<open>RuntimeError\<close> instead of returning a tensor.
\<close>

theorem forward_empty_batch_counterexample:
  "forward (size_nn True)
     (fst (projr (Wide_ResNet_Cifar_init (size_nn True) size_sampler () [4, 4, 4] 10 10
        (2 :: nat) 3 None)))
     [0, 3, 32, 32] = Inl RuntimeError"
proof -
  have layers: "3 \<le> length [4, 4, 4 :: nat]" and wf: "(0 :: nat) < 10"
    by simp_all
  from constructed_forward_size [OF layers wf size_sampler_draws, of True 10 "2 :: nat" 3 None 0]
  obtain built where
    init: "Wide_ResNet_Cifar_init (size_nn True) size_sampler () [4, 4, 4] 10 10 (2 :: nat) 3 None
      = Inr (built, ())"
    and fw: "forward (size_nn True) built [0, 3, 32, 32] =
      (if (0 :: nat) = 0 then Inl RuntimeError else Inr [0, 10])"
    by blast
  from fw show ?thesis
    unfolding init by simp
qed

section \<open>C10: the noise of arch_weights\<close>




end
